theory Spec2Isabelle
  imports Complex_Main
begin

section \<open>nanodl GPT4 model: a shallow embedding of \<open>nanodl/src/models/gpt4.py\<close>\<close>

text \<open>
  Conventions of the embedding.
  \<^item> An array of rank \<open>n\<close> is an \<open>n\<close>-fold nested list in row-major order; the
    length of the outermost list is \<open>shape[0]\<close>.
  \<^item> Floating-point numbers are idealised as \<open>real\<close>: rounding, infinities and NaN of
    float32 are outside the model.
  \<^item> A Python exception is a value \<open>Inl e\<close> of the result type \<open>py_error + 'a\<close>.
  \<^item> Sizes (\<open>num_heads\<close>, \<open>batch_size\<close>, dimensions) are natural numbers.
  \<^item> The shape of an input array is read off its first entries, so behind an axis of
    size 0 the sizes read 0.
\<close>

datatype py_error =
    ZeroDivisionError
  | ReshapeError
  | BroadcastError
  | MatmulError
  | ConcatError
  | AssertionError
  | DecoderError
  | IndexError
  | UnboundLocalError
  | FileNotFoundError

subsection \<open>\<open>GPT4Block.causal_mask\<close>\<close>

text \<open>
  \<^verbatim>\<open>idx_source = jnp.arange(destination_dim)[:, None]\<close>,
  \<^verbatim>\<open>idx_destination = jnp.arange(source_dim)\<close>,
  \<^verbatim>\<open>mask = idx_source >= idx_destination - source_dim + destination_dim\<close>, cast to
  \<open>int32\<close>, then broadcast to \<open>(batch_size, num_heads, destination_dim, source_dim)\<close>.
  The comparison is between signed integers, so the indices are read as \<open>int\<close>.
\<close>

definition causal_mask_2d :: "nat \<Rightarrow> nat \<Rightarrow> int list list" where
  "causal_mask_2d destination_dim source_dim =
     map (\<lambda>i. map (\<lambda>j. if int i \<ge> int j - int source_dim + int destination_dim
                        then 1 else 0)
                   [0..<source_dim])
         [0..<destination_dim]"

definition causal_mask :: "nat \<Rightarrow> nat \<Rightarrow> nat \<Rightarrow> nat \<Rightarrow> int list list list list" where
  "causal_mask num_heads batch_size destination_dim source_dim =
     replicate batch_size
       (replicate num_heads (causal_mask_2d destination_dim source_dim))"

subsection \<open>\<open>GPT4.generate\<close> and \<open>GPT4.generate_batch\<close>\<close>

text \<open>
  A token batch of shape \<open>(batch, seq_len)\<close> is a list of rows.

  The model facade, as far as generation reads it. The field \<open>next_token_step\<close> stands
  for lines 468-476 (and 509-518) of one loop iteration: the decoder's forward pass over
  \<open>decoder_input\<close>, the logits at the last position, the division by \<open>temperature\<close>, the
  softmax, and then \<open>argmax\<close> (\<open>deterministic\<close>) or a categorical sample whose key is
  seeded from the wall clock. Its arguments are \<open>temperature\<close>, \<open>deterministic\<close>, the
  index of the iteration (by which a sample may vary from call to call) and
  \<open>decoder_input\<close>; its result is the array \<open>next_token\<close> of shape \<open>(batch,)\<close>, or the
  exception the decoder raised.
\<close>

type_synonym tokens = "int list list"

record gpt4 =
  max_length :: nat
  start_token :: int
  end_token :: int
  next_token_step :: "real \<Rightarrow> bool \<Rightarrow> nat \<Rightarrow> tokens \<Rightarrow> py_error + int list"

text \<open>\<^verbatim>\<open>jnp.concatenate([a, b], axis=1)\<close> of two rank-2 arrays: the row counts must agree.\<close>

definition concatenate_axis1 :: "tokens \<Rightarrow> tokens \<Rightarrow> py_error + tokens" where
  "concatenate_axis1 a b =
     (if length a = length b then Inr (map2 (@) a b) else Inl ConcatError)"

text \<open>
  The decoding loop of \<open>generate\<close> (lines 467-483). The first argument counts the
  iterations still allowed by \<^verbatim>\<open>range(self.max_length)\<close>, \<open>t\<close> the iterations done. The
  result pairs the number of decoder calls made with the value of the loop: the
  \<open>output_sequence\<close>, or the exception that ended it. \<^verbatim>\<open>next_token[0]\<close> on an empty
  array raises.
\<close>

fun generate_loop ::
  "gpt4 \<Rightarrow> real \<Rightarrow> bool \<Rightarrow> nat \<Rightarrow> nat \<Rightarrow> tokens \<Rightarrow> int list \<Rightarrow> nat \<times> (py_error + int list)"
where
  "generate_loop m temperature deterministic 0 t decoder_input output_sequence =
     (t, Inr output_sequence)"
| "generate_loop m temperature deterministic (Suc n) t decoder_input output_sequence =
     (case next_token_step m temperature deterministic t decoder_input of
        Inl e \<Rightarrow> (Suc t, Inl e)
      | Inr next_token \<Rightarrow>
          (case next_token of
             [] \<Rightarrow> (Suc t, Inl IndexError)
           | tok # _ \<Rightarrow>
               (case concatenate_axis1 decoder_input [[tok]] of
                  Inl e \<Rightarrow> (Suc t, Inl e)
                | Inr decoder_input' \<Rightarrow>
                    if tok = end_token m
                    then (Suc t, Inr (output_sequence @ [tok]))
                    else generate_loop m temperature deterministic n (Suc t)
                           decoder_input' (output_sequence @ [tok]))))"

text \<open>
  \<open>generate\<close> (lines 460-485): the assertion on the batch dimension when an input is
  given, the choice of the seed, then the loop.
\<close>

definition generate_run ::
  "gpt4 \<Rightarrow> tokens option \<Rightarrow> real \<Rightarrow> bool \<Rightarrow> nat \<times> (py_error + int list)"
where
  "generate_run m x temperature deterministic =
     (case x of
        Some xs \<Rightarrow>
          if length xs = 1
          then generate_loop m temperature deterministic (max_length m) 0 xs []
          else (0, Inl AssertionError)
      | None \<Rightarrow>
          generate_loop m temperature deterministic (max_length m) 0 [[start_token m]] [])"

definition generate :: "gpt4 \<Rightarrow> tokens option \<Rightarrow> real \<Rightarrow> bool \<Rightarrow> py_error + int list" where
  "generate m x temperature deterministic = snd (generate_run m x temperature deterministic)"

text \<open>
  \<^verbatim>\<open>output_sequences.at[:, i].set(next_token)\<close>: \<open>next_token\<close> of shape \<open>(batch,)\<close>, or of
  shape \<open>(1,)\<close> (broadcast), is written into column \<open>i\<close> of every row.
\<close>

definition set_column :: "tokens \<Rightarrow> nat \<Rightarrow> int list \<Rightarrow> py_error + tokens" where
  "set_column output_sequences i next_token =
     (if length next_token = length output_sequences
      then Inr (map2 (\<lambda>row v. row[i := v]) output_sequences next_token)
      else if length next_token = 1
      then Inr (map (\<lambda>row. row[i := hd next_token]) output_sequences)
      else Inl BroadcastError)"

text \<open>
  The loop of \<open>generate_batch\<close> (lines 508-524); \<open>i\<close> is the loop variable. The result
  pairs the number of iterations run with the final \<open>decoder_input\<close> and
  \<open>output_sequences\<close>, or with the exception.
\<close>

fun generate_batch_loop ::
  "gpt4 \<Rightarrow> real \<Rightarrow> bool \<Rightarrow> nat \<Rightarrow> nat \<Rightarrow> tokens \<Rightarrow> tokens \<Rightarrow> nat \<times> (py_error + tokens \<times> tokens)"
where
  "generate_batch_loop m temperature deterministic 0 i decoder_input output_sequences =
     (i, Inr (decoder_input, output_sequences))"
| "generate_batch_loop m temperature deterministic (Suc n) i decoder_input output_sequences =
     (case next_token_step m temperature deterministic i decoder_input of
        Inl e \<Rightarrow> (Suc i, Inl e)
      | Inr next_token \<Rightarrow>
          (case set_column output_sequences i next_token of
             Inl e \<Rightarrow> (Suc i, Inl e)
           | Inr output_sequences' \<Rightarrow>
               (case concatenate_axis1 decoder_input (map (\<lambda>v. [v]) next_token) of
                  Inl e \<Rightarrow> (Suc i, Inl e)
                | Inr decoder_input' \<Rightarrow>
                    if list_all (\<lambda>v. v = end_token m) next_token
                    then (Suc i, Inr (decoder_input', output_sequences'))
                    else generate_batch_loop m temperature deterministic n (Suc i)
                           decoder_input' output_sequences')))"

definition generate_batch_run ::
  "gpt4 \<Rightarrow> tokens option \<Rightarrow> real \<Rightarrow> bool \<Rightarrow> nat \<times> (py_error + tokens \<times> tokens)"
where
  "generate_batch_run m x temperature deterministic =
     (let batch_size = (case x of Some xs \<Rightarrow> length xs | None \<Rightarrow> 1);
          decoder_input = (case x of Some xs \<Rightarrow> xs
                           | None \<Rightarrow> replicate batch_size [start_token m]);
          output_sequences = replicate batch_size (replicate (max_length m) 0)
      in generate_batch_loop m temperature deterministic (max_length m) 0
           decoder_input output_sequences)"

definition generate_batch :: "gpt4 \<Rightarrow> tokens option \<Rightarrow> real \<Rightarrow> bool \<Rightarrow> py_error + tokens" where
  "generate_batch m x temperature deterministic =
     map_sum id snd (snd (generate_batch_run m x temperature deterministic))"

text \<open>
  Three descriptions of the state of the loop of \<open>generate_batch\<close>, used to state what a
  run has done: the \<open>decoder_input\<close> of line 505; the \<open>decoder_input\<close> after the token
  arrays \<open>toks\<close> have been appended, one column each (row \<open>b\<close> is row \<open>b\<close> of the seed
  followed by entry \<open>b\<close> of every array); and the output buffer after they have been
  written (row \<open>b\<close> holds entry \<open>b\<close> of every array, then the zeros of line 506).
\<close>

definition seed_of :: "gpt4 \<Rightarrow> tokens option \<Rightarrow> tokens" where
  "seed_of m x = (case x of Some xs \<Rightarrow> xs | None \<Rightarrow> [[start_token m]])"

definition extend_rows :: "tokens \<Rightarrow> int list list \<Rightarrow> tokens" where
  "extend_rows seed toks =
     map (\<lambda>b. seed ! b @ map (\<lambda>nt. nt ! b) toks) [0..<length seed]"

definition written_rows :: "nat \<Rightarrow> nat \<Rightarrow> int list list \<Rightarrow> tokens" where
  "written_rows batch_size width toks =
     map (\<lambda>b. map (\<lambda>nt. nt ! b) toks @ replicate (width - length toks) 0) [0..<batch_size]"

subsection \<open>Arrays of rank 3 and 4, broadcasting\<close>

type_synonym tensor3 = "real list list list"
type_synonym tensor4 = "real list list list list"
type_synonym mask4 = "int list list list list"

text \<open>\<open>a.shape[1]\<close>, \<open>a.shape[2]\<close> and \<open>a.shape[3]\<close> of a nested list, read off its first entries.\<close>

definition shape1 :: "'a list list \<Rightarrow> nat" where
  "shape1 a = (case a of [] \<Rightarrow> 0 | r # _ \<Rightarrow> length r)"

definition shape2 :: "'a list list list \<Rightarrow> nat" where
  "shape2 a = (case a of [] \<Rightarrow> 0 | r # _ \<Rightarrow> shape1 r)"

definition shape3 :: "'a list list list list \<Rightarrow> nat" where
  "shape3 a = (case a of [] \<Rightarrow> 0 | r # _ \<Rightarrow> shape2 r)"

text \<open>
  NumPy broadcasting of one axis: two sizes are compatible when they are equal or one
  of them is 1; an axis of size 1 is read at index 0 throughout.
\<close>

definition bdim :: "nat \<Rightarrow> nat \<Rightarrow> nat option" where
  "bdim a b = (if a = b then Some a else if a = 1 then Some b
               else if b = 1 then Some a else None)"

definition bix :: "nat \<Rightarrow> nat \<Rightarrow> nat" where
  "bix n i = (if n = 1 then 0 else i)"

definition broadcast3 ::
  "('a \<Rightarrow> 'b \<Rightarrow> 'c) \<Rightarrow> 'a list list list \<Rightarrow> 'b list list list \<Rightarrow> py_error + 'c list list list"
where
  "broadcast3 f a b =
     (case (bdim (length a) (length b), bdim (shape1 a) (shape1 b),
            bdim (shape2 a) (shape2 b)) of
        (Some n0, Some n1, Some n2) \<Rightarrow>
          Inr (map (\<lambda>i0. map (\<lambda>i1. map (\<lambda>i2.
                 f (a ! bix (length a) i0 ! bix (shape1 a) i1 ! bix (shape2 a) i2)
                   (b ! bix (length b) i0 ! bix (shape1 b) i1 ! bix (shape2 b) i2))
               [0..<n2]) [0..<n1]) [0..<n0])
      | _ \<Rightarrow> Inl BroadcastError)"

text \<open>
  For arrays of rank 4 the shape is carried along with the entries, so that an axis of
  size 0 does not hide the sizes of the axes after it.
\<close>

type_synonym shape4 = "nat \<times> nat \<times> nat \<times> nat"

definition shape_of4 :: "'a list list list list \<Rightarrow> shape4" where
  "shape_of4 a = (length a, shape1 a, shape2 a, shape3 a)"

definition broadcast4 ::
  "('a \<Rightarrow> 'b \<Rightarrow> 'c) \<Rightarrow> shape4 \<Rightarrow> 'a list list list list \<Rightarrow> shape4 \<Rightarrow> 'b list list list list
     \<Rightarrow> py_error + shape4 \<times> 'c list list list list"
where
  "broadcast4 f sa a sb b =
     (case (sa, sb) of ((a0, a1, a2, a3), (b0, b1, b2, b3)) \<Rightarrow>
        (case (bdim a0 b0, bdim a1 b1, bdim a2 b2, bdim a3 b3) of
           (Some n0, Some n1, Some n2, Some n3) \<Rightarrow>
             Inr ((n0, n1, n2, n3),
                  map (\<lambda>i0. map (\<lambda>i1. map (\<lambda>i2. map (\<lambda>i3.
                    f (a ! bix a0 i0 ! bix a1 i1 ! bix a2 i2 ! bix a3 i3)
                      (b ! bix b0 i0 ! bix b1 i1 ! bix b2 i2 ! bix b3 i3))
                  [0..<n3]) [0..<n2]) [0..<n1]) [0..<n0])
         | _ \<Rightarrow> Inl BroadcastError))"

text \<open>
  \<^verbatim>\<open>jnp.reshape\<close> to rank 4 and to rank 3: the entries in row-major order are given a
  new shape of the same size.
\<close>

definition reshape4 :: "real list \<Rightarrow> shape4 \<Rightarrow> py_error + tensor4" where
  "reshape4 flat sh =
     (case sh of (d0, d1, d2, d3) \<Rightarrow>
        if length flat = d0 * d1 * d2 * d3
        then Inr (map (\<lambda>i0. map (\<lambda>i1. map (\<lambda>i2. map (\<lambda>i3.
                    flat ! (((i0 * d1 + i1) * d2 + i2) * d3 + i3))
                  [0..<d3]) [0..<d2]) [0..<d1]) [0..<d0])
        else Inl ReshapeError)"

definition reshape3 :: "real list \<Rightarrow> nat \<times> nat \<times> nat \<Rightarrow> py_error + tensor3" where
  "reshape3 flat sh =
     (case sh of (d0, d1, d2) \<Rightarrow>
        if length flat = d0 * d1 * d2
        then Inr (map (\<lambda>i0. map (\<lambda>i1. map (\<lambda>i2.
                    flat ! ((i0 * d1 + i1) * d2 + i2))
                  [0..<d2]) [0..<d1]) [0..<d0])
        else Inl ReshapeError)"

definition flatten3 :: "tensor3 \<Rightarrow> real list" where
  "flatten3 a = concat (concat a)"

definition flatten4 :: "tensor4 \<Rightarrow> real list" where
  "flatten4 a = concat (concat (concat a))"

text \<open>\<^verbatim>\<open>a.transpose(0, 1, 3, 2)\<close> of an array of shape \<open>(d0, d1, d2, d3)\<close>.\<close>

definition transpose_last2 :: "shape4 \<Rightarrow> tensor4 \<Rightarrow> shape4 \<times> tensor4" where
  "transpose_last2 sh a =
     (case sh of (d0, d1, d2, d3) \<Rightarrow>
        ((d0, d1, d3, d2),
         map (map (\<lambda>mat. map (\<lambda>c. map (\<lambda>r. mat ! r ! c) [0..<d2]) [0..<d3])) a))"

text \<open>
  \<^verbatim>\<open>jnp.matmul\<close> of two arrays of rank 4: a matrix product over the last two axes (the
  contracted sizes must agree), broadcast over the first two.
\<close>

definition matmul4 :: "shape4 \<Rightarrow> tensor4 \<Rightarrow> shape4 \<Rightarrow> tensor4 \<Rightarrow> py_error + shape4 \<times> tensor4" where
  "matmul4 sa a sb b =
     (case (sa, sb) of ((a0, a1, m, k), (b0, b1, k', n)) \<Rightarrow>
        if k \<noteq> k' then Inl MatmulError
        else
          (case (bdim a0 b0, bdim a1 b1) of
             (Some r0, Some r1) \<Rightarrow>
               Inr ((r0, r1, m, n),
                    map (\<lambda>i0. map (\<lambda>i1. map (\<lambda>i. map (\<lambda>j.
                      (\<Sum>c\<leftarrow>[0..<k]. a ! bix a0 i0 ! bix a1 i1 ! i ! c
                                     * b ! bix b0 i0 ! bix b1 i1 ! c ! j))
                    [0..<n]) [0..<m]) [0..<r1]) [0..<r0])
           | _ \<Rightarrow> Inl MatmulError))"

text \<open>\<^verbatim>\<open>jax.nn.softmax(a, axis=-1)\<close>, on one row and on an array of rank 4.\<close>

definition softmax :: "real list \<Rightarrow> real list" where
  "softmax xs = map (\<lambda>v. exp v / (\<Sum>u\<leftarrow>xs. exp u)) xs"

definition softmax4 :: "tensor4 \<Rightarrow> tensor4" where
  "softmax4 a = map (map (map softmax)) a"

subsection \<open>\<open>SelfMultiHeadAttention\<close>\<close>

text \<open>The module's two fields.\<close>

datatype SelfMultiHeadAttention =
  SelfMultiHeadAttention (attention_hidden_dim: nat) (attention_num_heads: nat)

text \<open>
  The local variables of \<open>attention_function\<close> after line 117: the sizes, and the three
  arrays split into heads, each with its shape.
\<close>

record attention_locals =
  input_length :: nat
  context_length :: nat
  head_dim :: nat
  dim_key :: nat
  query_heads :: "shape4 \<times> tensor4"
  key_heads :: "shape4 \<times> tensor4"
  value_heads :: "shape4 \<times> tensor4"

text \<open>
  Lines 109-117. \<open>num_heads = 0\<close> makes \<^verbatim>\<open>//\<close> raise; a reshape raises when the sizes
  differ, which is the case when \<open>num_heads\<close> does not divide the width of a non-empty
  input.
\<close>

definition split_heads ::
  "nat \<Rightarrow> tensor3 \<Rightarrow> tensor3 \<Rightarrow> tensor3 \<Rightarrow> py_error + attention_locals" where
  "split_heads heads query key val =
     (if heads = 0 then Inl ZeroDivisionError
      else
        (let il = shape1 query; cl = shape1 key; hd = shape2 query div heads;
             dk = shape2 key;
             qs = (length query, heads, il, hd);
             ks = (length key, heads, cl, hd);
             vs = (length val, heads, cl, hd)
         in case reshape4 (flatten3 query) qs of
              Inl e \<Rightarrow> Inl e
            | Inr qh \<Rightarrow>
                (case reshape4 (flatten3 key) ks of
                   Inl e \<Rightarrow> Inl e
                 | Inr kh \<Rightarrow>
                     (case reshape4 (flatten3 val) vs of
                        Inl e \<Rightarrow> Inl e
                      | Inr vh \<Rightarrow>
                          Inr \<lparr>input_length = il, context_length = cl, head_dim = hd,
                               dim_key = dk, query_heads = (qs, qh), key_heads = (ks, kh),
                               value_heads = (vs, vh)\<rparr>))))"

text \<open>
  Line 119: the raw scores, the product of the query heads with the transposed key
  heads divided by \<open>jnp.sqrt(dim_key)\<close>. (For \<open>dim_key = 0\<close> the floats are NaN, which
  the reals do not show.)
\<close>

definition attention_scores :: "attention_locals \<Rightarrow> py_error + shape4 \<times> tensor4" where
  "attention_scores loc =
     (let (ks', kt) = transpose_last2 (fst (key_heads loc)) (snd (key_heads loc))
      in case matmul4 (fst (query_heads loc)) (snd (query_heads loc)) ks' kt of
           Inl e \<Rightarrow> Inl e
         | Inr (sh, qk) \<Rightarrow>
             Inr (sh, map (map (map (map (\<lambda>v. v / sqrt (real (dim_key loc)))))) qk))"

text \<open>Lines 120-121: the mask, an integer array of rank 4, multiplies the scores.\<close>

definition apply_mask :: "shape4 \<times> tensor4 \<Rightarrow> mask4 option \<Rightarrow> py_error + shape4 \<times> tensor4" where
  "apply_mask scores mask0 =
     (case mask0 of
        None \<Rightarrow> Inr scores
      | Some m \<Rightarrow>
          broadcast4 (\<lambda>v z. v * real_of_int z) (fst scores) (snd scores) (shape_of4 m) m)"

text \<open>Lines 119-123: the attention weights.\<close>

definition attention_weights ::
  "attention_locals \<Rightarrow> mask4 option \<Rightarrow> py_error + shape4 \<times> tensor4" where
  "attention_weights loc mask0 =
     (case attention_scores loc of
        Inl e \<Rightarrow> Inl e
      | Inr scores \<Rightarrow>
          (case apply_mask scores mask0 of
             Inl e \<Rightarrow> Inl e
           | Inr (sh, masked) \<Rightarrow> Inr (sh, softmax4 masked)))"

text \<open>\<open>attention_function\<close> (lines 108-126).\<close>

definition attention_function ::
  "nat \<Rightarrow> tensor3 \<Rightarrow> tensor3 \<Rightarrow> tensor3 \<Rightarrow> mask4 option \<Rightarrow> py_error + tensor3 \<times> tensor4" where
  "attention_function heads query key val mask0 =
     (case split_heads heads query key val of
        Inl e \<Rightarrow> Inl e
      | Inr loc \<Rightarrow>
          (case attention_weights loc mask0 of
             Inl e \<Rightarrow> Inl e
           | Inr (sh, w) \<Rightarrow>
               (case matmul4 sh w (fst (value_heads loc)) (snd (value_heads loc)) of
                  Inl e \<Rightarrow> Inl e
                | Inr (sh', attended) \<Rightarrow>
                    (case reshape3 (flatten4 attended)
                            (length query, input_length loc, shape2 query) of
                       Inl e \<Rightarrow> Inl e
                     | Inr attended_values \<Rightarrow> Inr (attended_values, w)))))"

text \<open>
  \<^verbatim>\<open>jnp.array_split(projections, 3, axis=-1)\<close>: section \<open>i\<close> of a row of width \<open>n\<close>; the
  first \<open>n mod 3\<close> sections have one entry more than \<open>n div 3\<close>.
\<close>

definition array_split3 :: "nat \<Rightarrow> 'a list \<Rightarrow> 'a list" where
  "array_split3 i row =
     (let l = length row div 3; r = length row mod 3
      in take (l + (if i < r then 1 else 0)) (drop (i * l + min i r) row))"

text \<open>
  \<open>SelfMultiHeadAttention.__call__\<close> (lines 102-106). The two dense layers are taken
  with their parameters bound: \<open>projection\<close> maps to width \<open>3 * hidden_dim\<close>, \<open>output\<close>
  to width \<open>hidden_dim\<close>.
\<close>

definition SelfMultiHeadAttention_call ::
  "SelfMultiHeadAttention \<Rightarrow> (tensor3 \<Rightarrow> tensor3) \<Rightarrow> (tensor3 \<Rightarrow> tensor3) \<Rightarrow> tensor3
     \<Rightarrow> mask4 option \<Rightarrow> py_error + tensor3 \<times> tensor4"
where
  "SelfMultiHeadAttention_call self projection output inputs mask0 =
     (let projections = projection inputs;
          query = map (map (array_split3 0)) projections;
          key = map (map (array_split3 1)) projections;
          val = map (map (array_split3 2)) projections
      in case attention_function (attention_num_heads self) query key val mask0 of
           Inl e \<Rightarrow> Inl e
         | Inr (context_vectors, attention) \<Rightarrow> Inr (output context_vectors, attention))"

text \<open>
  The raw scores as the specification words them (section 4.1): the product divided by
  the square root of the per-head dimension.
\<close>

definition attention_scores_spec :: "attention_locals \<Rightarrow> py_error + shape4 \<times> tensor4" where
  "attention_scores_spec loc =
     (let (ks', kt) = transpose_last2 (fst (key_heads loc)) (snd (key_heads loc))
      in case matmul4 (fst (query_heads loc)) (snd (query_heads loc)) ks' kt of
           Inl e \<Rightarrow> Inl e
         | Inr (sh, qk) \<Rightarrow>
             Inr (sh, map (map (map (map (\<lambda>v. v / sqrt (real (head_dim loc)))))) qk))"

text \<open>
  The value bound to \<open>attention_scores\<close> by line 119 in a call of
  \<open>attention_function\<close>, and the same with the scores as the specification words them.
\<close>

definition raw_scores :: "nat \<Rightarrow> tensor3 \<Rightarrow> tensor3 \<Rightarrow> tensor3 \<Rightarrow> py_error + shape4 \<times> tensor4" where
  "raw_scores heads query key val =
     (case split_heads heads query key val of
        Inl e \<Rightarrow> Inl e
      | Inr loc \<Rightarrow> attention_scores loc)"

definition raw_scores_spec :: "nat \<Rightarrow> tensor3 \<Rightarrow> tensor3 \<Rightarrow> tensor3 \<Rightarrow> py_error + shape4 \<times> tensor4" where
  "raw_scores_spec heads query key val =
     (case split_heads heads query key val of
        Inl e \<Rightarrow> Inl e
      | Inr loc \<Rightarrow> attention_scores_spec loc)"

subsection \<open>\<open>GPT4Block\<close>: sub-modules and call\<close>

text \<open>
  The other modules the block constructs, as far as the block configures them. The first
  positional field of \<open>nn.LayerNorm\<close> is \<open>epsilon\<close>, that of \<open>nn.Dropout\<close> is \<open>rate\<close>.
\<close>

datatype LayerNorm = LayerNorm (epsilon: real)
datatype Dropout = Dropout (rate: real)
datatype PositionWiseFFNMoE =
  PositionWiseFFNMoE (ffn_num_hiddens: nat) (ffn_num_outputs: nat) (ffn_num_experts: nat)

record GPT4Block =
  hidden_dim :: nat
  num_heads :: nat
  feedforward_dim :: nat
  dropout :: real
  num_experts :: nat

record GPT4Block_modules =
  attention1 :: SelfMultiHeadAttention
  attention2 :: SelfMultiHeadAttention
  feed_forward :: PositionWiseFFNMoE
  norm1 :: LayerNorm
  norm2 :: LayerNorm
  norm3 :: LayerNorm
  dropout1 :: Dropout
  dropout2 :: Dropout
  dropout3 :: Dropout

text \<open>\<open>GPT4Block.setup\<close> (lines 256-265).\<close>

definition GPT4Block_setup :: "GPT4Block \<Rightarrow> GPT4Block_modules" where
  "GPT4Block_setup self =
     \<lparr>attention1 = SelfMultiHeadAttention (hidden_dim self) (num_heads self),
      attention2 = SelfMultiHeadAttention (hidden_dim self) (num_heads self),
      feed_forward = PositionWiseFFNMoE (feedforward_dim self) (hidden_dim self)
                       (num_experts self),
      norm1 = LayerNorm (dropout self),
      norm2 = LayerNorm (dropout self),
      norm3 = LayerNorm (dropout self),
      dropout1 = Dropout (dropout self),
      dropout2 = Dropout (dropout self),
      dropout3 = Dropout (dropout self)\<rparr>"

text \<open>
  Layer normalisation of one feature vector, as \<open>flax.linen.LayerNorm\<close> computes it:
  the mean and the mean of squares over the features, the variance
  \<open>max 0 (mean2 - mean\<^sup>2)\<close>, then \<open>(x - mean) * (rsqrt (var + epsilon) * scale) + bias\<close>
  with the learned \<open>scale\<close> and \<open>bias\<close>, which have one entry per feature.
\<close>

definition mean :: "real list \<Rightarrow> real" where
  "mean xs = sum_list xs / real (length xs)"

definition variance :: "real list \<Rightarrow> real" where
  "variance xs = max 0 (mean (map (\<lambda>v. v * v) xs) - mean xs * mean xs)"

definition LayerNorm_apply :: "LayerNorm \<Rightarrow> real list \<Rightarrow> real list \<Rightarrow> real list \<Rightarrow> real list" where
  "LayerNorm_apply self scale bias xs =
     map (\<lambda>k. (xs ! k - mean xs) * (1 / sqrt (variance xs + epsilon self) * scale ! k) + bias ! k)
         [0..<length xs]"

definition LayerNorm_call :: "LayerNorm \<Rightarrow> real list \<Rightarrow> real list \<Rightarrow> tensor3 \<Rightarrow> tensor3" where
  "LayerNorm_call self scale bias x = map (map (LayerNorm_apply self scale bias)) x"

text \<open>
  \<open>nn.Dropout\<close>: the identity when \<open>deterministic\<close> or when the rate is 0, all zeros when
  the rate is 1, else the random draw \<open>sample\<close> (the kept entries divided by \<open>1 - rate\<close>).
\<close>

definition Dropout_call :: "Dropout \<Rightarrow> (real \<Rightarrow> tensor3 \<Rightarrow> tensor3) \<Rightarrow> tensor3 \<Rightarrow> bool \<Rightarrow> tensor3" where
  "Dropout_call d sample x deterministic =
     (if rate d = 0 \<or> deterministic then x
      else if rate d = 1 then map (map (map (\<lambda>_. 0))) x
      else sample (rate d) x)"

text \<open>
  What a call of the block reads besides its input: the two attention modules and the
  feed-forward module with their parameters bound (each may raise), the learned scale
  and bias of the three normalisations, and the random draws of the three dropouts.
\<close>

record block_env =
  attention1_call :: "SelfMultiHeadAttention \<Rightarrow> tensor3 \<Rightarrow> mask4 option \<Rightarrow> py_error + tensor3 \<times> tensor4"
  attention2_call :: "SelfMultiHeadAttention \<Rightarrow> tensor3 \<Rightarrow> mask4 option \<Rightarrow> py_error + tensor3 \<times> tensor4"
  feed_forward_call :: "PositionWiseFFNMoE \<Rightarrow> tensor3 \<Rightarrow> py_error + tensor3"
  norm1_scale :: "real list"
  norm1_bias :: "real list"
  norm2_scale :: "real list"
  norm2_bias :: "real list"
  norm3_scale :: "real list"
  norm3_bias :: "real list"
  dropout1_sample :: "real \<Rightarrow> tensor3 \<Rightarrow> tensor3"
  dropout2_sample :: "real \<Rightarrow> tensor3 \<Rightarrow> tensor3"
  dropout3_sample :: "real \<Rightarrow> tensor3 \<Rightarrow> tensor3"

text \<open>
  The local variables \<open>x\<close>, \<open>mask\<close>, \<open>attended_x\<close>, \<open>attention1\<close> and \<open>attention2\<close>
  of \<open>GPT4Block.__call__\<close>. The last three are unbound (\<open>None\<close>) until their sub-layer
  has run.
\<close>

record block_locals =
  var_x :: tensor3
  var_mask :: "mask4 option"
  var_attended_x :: "tensor3 option"
  var_attention1 :: "tensor4 option"
  var_attention2 :: "tensor4 option"

text \<open>Line 307: the mask argument is overwritten by the causal mask.\<close>

definition block_enter :: "GPT4Block \<Rightarrow> tensor3 \<Rightarrow> mask4 option \<Rightarrow> block_locals" where
  "block_enter self x0 mask0 =
     \<lparr>var_x = x0,
      var_mask = Some (causal_mask (num_heads self) (length x0) (shape1 x0) (shape1 x0)),
      var_attended_x = None, var_attention1 = None, var_attention2 = None\<rparr>"

text \<open>\<open>x += attended_x\<close> (a broadcasting addition; the name \<open>x\<close> is rebound).\<close>

definition add_attended :: "block_locals \<Rightarrow> py_error + block_locals" where
  "add_attended s =
     (case var_attended_x s of
        None \<Rightarrow> Inl UnboundLocalError
      | Some a \<Rightarrow>
          (case broadcast3 (+) (var_x s) a of
             Inl e \<Rightarrow> Inl e
           | Inr x' \<Rightarrow> Inr (s\<lparr>var_x := x'\<rparr>)))"

text \<open>Lines 309-312.\<close>

definition sublayer1 :: "GPT4Block \<Rightarrow> block_env \<Rightarrow> bool \<Rightarrow> block_locals \<Rightarrow> py_error + block_locals" where
  "sublayer1 self env training s =
     (let m = GPT4Block_setup self;
          s1 = s\<lparr>var_x := LayerNorm_call (norm1 m) (norm1_scale env) (norm1_bias env) (var_x s)\<rparr>
      in case attention1_call env (attention1 m) (var_x s1) (var_mask s1) of
           Inl e \<Rightarrow> Inl e
         | Inr (a, w) \<Rightarrow>
             (let s2 = s1\<lparr>var_attended_x := Some a, var_attention1 := Some w\<rparr>;
                  s3 = s2\<lparr>var_x := Dropout_call (dropout1 m) (dropout1_sample env) (var_x s2)
                                 (\<not> training)\<rparr>
              in add_attended s3))"

text \<open>Lines 314-317.\<close>

definition sublayer2 :: "GPT4Block \<Rightarrow> block_env \<Rightarrow> bool \<Rightarrow> block_locals \<Rightarrow> py_error + block_locals" where
  "sublayer2 self env training s =
     (let m = GPT4Block_setup self;
          s1 = s\<lparr>var_x := LayerNorm_call (norm2 m) (norm2_scale env) (norm2_bias env) (var_x s)\<rparr>
      in case attention2_call env (attention2 m) (var_x s1) (var_mask s1) of
           Inl e \<Rightarrow> Inl e
         | Inr (a, w) \<Rightarrow>
             (let s2 = s1\<lparr>var_attended_x := Some a, var_attention2 := Some w\<rparr>;
                  s3 = s2\<lparr>var_x := Dropout_call (dropout2 m) (dropout2_sample env) (var_x s2)
                                 (\<not> training)\<rparr>
              in add_attended s3))"

text \<open>Lines 319-322.\<close>

definition sublayer3 :: "GPT4Block \<Rightarrow> block_env \<Rightarrow> bool \<Rightarrow> block_locals \<Rightarrow> py_error + block_locals" where
  "sublayer3 self env training s =
     (let m = GPT4Block_setup self;
          s1 = s\<lparr>var_x := LayerNorm_call (norm3 m) (norm3_scale env) (norm3_bias env) (var_x s)\<rparr>
      in case feed_forward_call env (feed_forward m) (var_x s1) of
           Inl e \<Rightarrow> Inl e
         | Inr output \<Rightarrow>
             (let s2 = s1\<lparr>var_x := Dropout_call (dropout3 m) (dropout3_sample env) output
                                 (\<not> training)\<rparr>
              in add_attended s2))"

text \<open>\<open>GPT4Block.__call__\<close> (lines 307-324).\<close>

definition GPT4Block_call ::
  "GPT4Block \<Rightarrow> block_env \<Rightarrow> tensor3 \<Rightarrow> mask4 option \<Rightarrow> bool
     \<Rightarrow> py_error + tensor3 \<times> tensor4 option \<times> tensor4 option"
where
  "GPT4Block_call self env x0 mask0 training =
     (case sublayer1 self env training (block_enter self x0 mask0) of
        Inl e \<Rightarrow> Inl e
      | Inr s1 \<Rightarrow>
          (case sublayer2 self env training s1 of
             Inl e \<Rightarrow> Inl e
           | Inr s2 \<Rightarrow>
               (case sublayer3 self env training s2 of
                  Inl e \<Rightarrow> Inl e
                | Inr s3 \<Rightarrow> Inr (var_x s3, var_attention1 s3, var_attention2 s3))))"

text \<open>The value of \<open>x\<close> after line 317, where the second sub-layer closes.\<close>

definition x_after_sublayer2 ::
  "GPT4Block \<Rightarrow> block_env \<Rightarrow> tensor3 \<Rightarrow> mask4 option \<Rightarrow> bool \<Rightarrow> py_error + tensor3" where
  "x_after_sublayer2 self env x0 mask0 training =
     (case sublayer1 self env training (block_enter self x0 mask0) of
        Inl e \<Rightarrow> Inl e
      | Inr s1 \<Rightarrow> map_sum id var_x (sublayer2 self env training s1))"

text \<open>
  The same value as the specification words it (section 4.4: the residual addition of
  the second sub-layer uses the first attention's output): the normalised, dropped-out
  stream plus the \<open>attended_x\<close> that the first sub-layer left.
\<close>

definition x_after_sublayer2_spec ::
  "GPT4Block \<Rightarrow> block_env \<Rightarrow> tensor3 \<Rightarrow> mask4 option \<Rightarrow> bool \<Rightarrow> py_error + tensor3" where
  "x_after_sublayer2_spec self env x0 mask0 training =
     (case sublayer1 self env training (block_enter self x0 mask0) of
        Inl e \<Rightarrow> Inl e
      | Inr s1 \<Rightarrow>
          (let m = GPT4Block_setup self;
               normed = LayerNorm_call (norm2 m) (norm2_scale env) (norm2_bias env) (var_x s1);
               dropped = Dropout_call (dropout2 m) (dropout2_sample env) normed (\<not> training)
           in case var_attended_x s1 of
                None \<Rightarrow> Inl UnboundLocalError
              | Some first_attention_output \<Rightarrow> broadcast3 (+) dropped first_attention_output))"

subsection \<open>\<open>GPT4DataParallelTrainer\<close>\<close>

text \<open>
  A loss is a float: a finite value (idealised as a real), an infinity, or NaN. The
  initial \<open>best_val_loss\<close> is \<^verbatim>\<open>float("inf")\<close>; every comparison with NaN is false.
\<close>

datatype pyfloat = Finite real | PosInf | NegInf | NaN

fun float_less :: "pyfloat \<Rightarrow> pyfloat \<Rightarrow> bool" where
  "float_less (Finite a) (Finite b) = (a < b)"
| "float_less (Finite a) PosInf = True"
| "float_less NegInf (Finite b) = True"
| "float_less NegInf PosInf = True"
| "float_less _ _ = False"

fun float_add :: "pyfloat \<Rightarrow> pyfloat \<Rightarrow> pyfloat" where
  "float_add NaN _ = NaN"
| "float_add _ NaN = NaN"
| "float_add PosInf NegInf = NaN"
| "float_add NegInf PosInf = NaN"
| "float_add PosInf _ = PosInf"
| "float_add _ PosInf = PosInf"
| "float_add NegInf _ = NegInf"
| "float_add _ NegInf = NegInf"
| "float_add (Finite a) (Finite b) = Finite (a + b)"

text \<open>\<^verbatim>\<open>total_loss / count\<close> for a positive \<open>count\<close>.\<close>

fun float_div_count :: "pyfloat \<Rightarrow> nat \<Rightarrow> pyfloat" where
  "float_div_count (Finite a) n = Finite (a / real n)"
| "float_div_count v n = v"

record ('p, 'o) train_state =
  params :: 'p
  opt_state :: 'o

text \<open>
  What the trainer calls and does not define: the compiled train and evaluation steps
  applied to one batch of the loader (the reshape to \<open>(num_devices, per_device, -1)\<close>,
  the \<open>pmap\<close>-ed step and \<open>jnp.mean\<close> of the per-device losses, lines 627-634 and
  679-684; each may raise), and \<open>pickle\<close>'s serialisation of a parameter tree to bytes
  and back.
\<close>

record ('p, 'o, 'b) trainer_env =
  train_step :: "('p, 'o) train_state \<Rightarrow> 'b \<Rightarrow> py_error + ('p, 'o) train_state \<times> pyfloat"
  evaluation_step :: "('p, 'o) train_state \<Rightarrow> 'b \<Rightarrow> py_error + pyfloat"
  pickle_dump :: "'p \<Rightarrow> string"
  pickle_load :: "string \<Rightarrow> py_error + 'p"

text \<open>
  What the trainer does to the outside, in order: the lines it prints and the files it
  writes.
\<close>

datatype event =
    Print_train_loss nat pyfloat
  | Print_val_loss nat pyfloat
  | Print_new_best
  | Write_file string string

text \<open>
  The trainer object with the world it acts on: the fields that \<open>train\<close> reads and
  writes, the file system (file name to contents) and the trace of events. Opening a
  file for writing is taken to succeed.
\<close>

record ('p, 'o) trainer =
  best_val_loss :: pyfloat
  weights_filename :: string
  state :: "('p, 'o) train_state"
  files :: "string \<rightharpoonup> string"
  events :: "event list"

text \<open>\<open>save_params\<close> (lines 690-695): mode \<open>'wb'\<close> replaces the file's contents.\<close>

definition save_params :: "('p, 'o, 'b) trainer_env \<Rightarrow> ('p, 'o) trainer \<Rightarrow> ('p, 'o) trainer" where
  "save_params env self =
     (let f = pickle_dump env (params (state self))
      in self\<lparr>files := (files self)(weights_filename self \<mapsto> f),
              events := events self @ [Write_file (weights_filename self) f]\<rparr>)"

text \<open>\<open>load_params\<close> (lines 697-710), a static method: it reads the named file only.\<close>

definition load_params ::
  "('p, 'o, 'b) trainer_env \<Rightarrow> (string \<rightharpoonup> string) \<Rightarrow> string \<Rightarrow> py_error + 'p" where
  "load_params env fs filename =
     (case fs filename of
        None \<Rightarrow> Inl FileNotFoundError
      | Some f \<Rightarrow> pickle_load env f)"

text \<open>The loop of \<open>evaluate\<close> (lines 678-685) and \<open>evaluate\<close> itself (lines 676-688).\<close>

fun evaluate_loop ::
  "('p, 'o, 'b) trainer_env \<Rightarrow> ('p, 'o) train_state \<Rightarrow> pyfloat \<Rightarrow> nat \<Rightarrow> 'b list
     \<Rightarrow> py_error + pyfloat \<times> nat"
where
  "evaluate_loop env st total_loss count [] = Inr (total_loss, count)"
| "evaluate_loop env st total_loss count (batch # rest) =
     (case evaluation_step env st batch of
        Inl e \<Rightarrow> Inl e
      | Inr loss \<Rightarrow> evaluate_loop env st (float_add total_loss loss) (count + 1) rest)"

definition evaluate ::
  "('p, 'o, 'b) trainer_env \<Rightarrow> ('p, 'o) trainer \<Rightarrow> 'b list \<Rightarrow> py_error + pyfloat" where
  "evaluate env self test_loader =
     (case evaluate_loop env (state self) (Finite 0) 0 test_loader of
        Inl e \<Rightarrow> Inl e
      | Inr (total_loss, count) \<Rightarrow>
          if count = 0 then Inl ZeroDivisionError
          else Inr (float_div_count total_loss count))"

text \<open>The inner loop of \<open>train\<close> over the batches of one epoch (lines 626-635).\<close>

fun train_batches ::
  "('p, 'o, 'b) trainer_env \<Rightarrow> ('p, 'o) train_state \<Rightarrow> pyfloat \<Rightarrow> nat \<Rightarrow> 'b list
     \<Rightarrow> py_error + ('p, 'o) train_state \<times> pyfloat \<times> nat"
where
  "train_batches env st total_loss count [] = Inr (st, total_loss, count)"
| "train_batches env st total_loss count (batch # rest) =
     (case train_step env st batch of
        Inl e \<Rightarrow> Inl e
      | Inr (st', loss) \<Rightarrow>
          train_batches env st' (float_add total_loss loss) (count + 1) rest)"

text \<open>
  Lines 640-646: the validation pass of one epoch. The comparison only guards the
  assignment to \<open>best_val_loss\<close>; the print and \<open>save_params\<close> follow it at the
  indentation of the \<open>if\<close>.
\<close>

definition validate_and_save ::
  "('p, 'o, 'b) trainer_env \<Rightarrow> nat \<Rightarrow> 'b list \<Rightarrow> ('p, 'o) trainer \<Rightarrow> py_error + ('p, 'o) trainer"
where
  "validate_and_save env epoch val_loader self =
     (case evaluate env self val_loader of
        Inl e \<Rightarrow> Inl e
      | Inr val_loss \<Rightarrow>
          (let s1 = self\<lparr>events := events self @ [Print_val_loss (epoch + 1) val_loss]\<rparr>;
               s2 = (if float_less val_loss (best_val_loss s1)
                     then s1\<lparr>best_val_loss := val_loss\<rparr> else s1);
               s3 = s2\<lparr>events := events s2 @ [Print_new_best]\<rparr>
           in Inr (save_params env s3)))"

text \<open>The body of the epoch loop (lines 624-646).\<close>

definition train_epoch ::
  "('p, 'o, 'b) trainer_env \<Rightarrow> 'b list \<Rightarrow> 'b list option \<Rightarrow> nat \<Rightarrow> ('p, 'o) trainer
     \<Rightarrow> py_error + ('p, 'o) trainer"
where
  "train_epoch env train_loader val_loader epoch self =
     (case train_batches env (state self) (Finite 0) 0 train_loader of
        Inl e \<Rightarrow> Inl e
      | Inr (st, total_loss, count) \<Rightarrow>
          if count = 0 then Inl ZeroDivisionError
          else
            (let mean_loss = float_div_count total_loss count;
                 s1 = self\<lparr>state := st,
                           events := events self @ [Print_train_loss (epoch + 1) mean_loss]\<rparr>
             in case val_loader of
                  None \<Rightarrow> Inr s1
                | Some vl \<Rightarrow> validate_and_save env epoch vl s1))"

text \<open>
  \<open>train\<close> (lines 623-647): \<open>n\<close> epochs remain, \<open>epoch\<close> is the loop variable. The
  loaders are lists, iterated anew in every epoch.
\<close>

fun train_epochs ::
  "('p, 'o, 'b) trainer_env \<Rightarrow> 'b list \<Rightarrow> 'b list option \<Rightarrow> nat \<Rightarrow> nat \<Rightarrow> ('p, 'o) trainer
     \<Rightarrow> py_error + ('p, 'o) trainer"
where
  "train_epochs env train_loader val_loader 0 epoch self = Inr self"
| "train_epochs env train_loader val_loader (Suc n) epoch self =
     (case train_epoch env train_loader val_loader epoch self of
        Inl e \<Rightarrow> Inl e
      | Inr self' \<Rightarrow> train_epochs env train_loader val_loader n (Suc epoch) self')"

definition train ::
  "('p, 'o, 'b) trainer_env \<Rightarrow> ('p, 'o) trainer \<Rightarrow> 'b list \<Rightarrow> nat \<Rightarrow> 'b list option
     \<Rightarrow> py_error + ('p, 'o) trainer"
where
  "train env self train_loader num_epochs val_loader =
     train_epochs env train_loader val_loader num_epochs 0 self"

text \<open>The number of checkpoint writes in a trace.\<close>

fun is_write :: "event \<Rightarrow> bool" where
  "is_write (Write_file _ _) = True"
| "is_write _ = False"

definition writes :: "event list \<Rightarrow> nat" where
  "writes es = length (filter is_write es)"

subsection \<open>Configurations and modules of the concrete runs\<close>

text \<open>
  \<open>hyperparams\<close> is the configuration of the module's usage example (lines 21-32):
  \<open>max_length = 51\<close>, \<open>start_token = 0\<close>, \<open>end_token = 50\<close>. The three step functions
  are decoders for concrete runs: one that always prefers the token \<open>c\<close>, one whose
  preferred token is \<open>base\<close> plus the number of tokens read so far, and one whose forward
  pass raises.
\<close>

definition hyperparams :: "(real \<Rightarrow> bool \<Rightarrow> nat \<Rightarrow> tokens \<Rightarrow> py_error + int list) \<Rightarrow> gpt4" where
  "hyperparams step =
     \<lparr>max_length = 51, start_token = 0, end_token = 50, next_token_step = step\<rparr>"

definition constant_step :: "int \<Rightarrow> real \<Rightarrow> bool \<Rightarrow> nat \<Rightarrow> tokens \<Rightarrow> py_error + int list" where
  "constant_step c temperature deterministic t decoder_input =
     Inr (replicate (length decoder_input) c)"

definition length_step :: "int \<Rightarrow> real \<Rightarrow> bool \<Rightarrow> nat \<Rightarrow> tokens \<Rightarrow> py_error + int list" where
  "length_step base temperature deterministic t decoder_input =
     Inr (map (\<lambda>row. base + int (length row)) decoder_input)"

text \<open>
  A decoder whose preferred token depends on the last token of each row: 7 after 50,
  50 after 7 and after 49, the successor otherwise.
\<close>

definition successor_step :: "real \<Rightarrow> bool \<Rightarrow> nat \<Rightarrow> tokens \<Rightarrow> py_error + int list" where
  "successor_step temperature deterministic t decoder_input =
     Inr (map (\<lambda>row. if row = [] then 0
                      else if last row = 50 then 7
                      else if last row = 7 \<or> last row = 49 then 50
                      else last row + 1) decoder_input)"

definition failing_step :: "real \<Rightarrow> bool \<Rightarrow> nat \<Rightarrow> tokens \<Rightarrow> py_error + int list" where
  "failing_step temperature deterministic t decoder_input = Inl DecoderError"

text \<open>
  An attention module whose output is the constant \<open>c\<close> at every position (its output
  projection has a zero kernel and bias \<open>c\<close>) and whose weights are uniform, and a
  feed-forward module with constant output; a block of width 1 built from them.
\<close>

definition constant_attention ::
  "real \<Rightarrow> SelfMultiHeadAttention \<Rightarrow> tensor3 \<Rightarrow> mask4 option \<Rightarrow> py_error + tensor3 \<times> tensor4" where
  "constant_attention c layer inputs mask0 =
     Inr (map (map (map (\<lambda>_. c))) inputs,
          replicate (length inputs) (replicate (attention_num_heads layer)
            (replicate (shape1 inputs) (replicate (shape1 inputs) (1 / real (shape1 inputs))))))"

definition constant_ffn :: "real \<Rightarrow> PositionWiseFFNMoE \<Rightarrow> tensor3 \<Rightarrow> py_error + tensor3" where
  "constant_ffn c layer inputs = Inr (map (map (map (\<lambda>_. c))) inputs)"

definition example_block :: GPT4Block where
  "example_block = \<lparr>hidden_dim = 1, num_heads = 1, feedforward_dim = 1, dropout = 1 / 10,
                     num_experts = 1\<rparr>"

definition example_env :: block_env where
  "example_env =
     \<lparr>attention1_call = constant_attention 1, attention2_call = constant_attention 10,
      feed_forward_call = constant_ffn 100,
      norm1_scale = [1], norm1_bias = [0], norm2_scale = [1], norm2_bias = [0],
      norm3_scale = [1], norm3_bias = [0],
      dropout1_sample = (\<lambda>r t. t), dropout2_sample = (\<lambda>r t. t), dropout3_sample = (\<lambda>r t. t)\<rparr>"

text \<open>
  A trainer for concrete runs: parameters are a list of booleans, a train step flips
  them and reports loss 1, an evaluation step reports loss 2, and the serialisation
  writes one character per boolean.
\<close>

definition example_trainer_env :: "(bool list, unit, nat) trainer_env" where
  "example_trainer_env =
     \<lparr>train_step = (\<lambda>st batch. Inr (st\<lparr>params := map Not (params st)\<rparr>, Finite 1)),
      evaluation_step = (\<lambda>st batch. Inr (Finite 2)),
      pickle_dump = map (\<lambda>b. if b then CHR ''1'' else CHR ''0''),
      pickle_load = (\<lambda>f. Inr (map (\<lambda>c. c = CHR ''1'') f))\<rparr>"

definition example_trainer :: "(bool list, unit) trainer" where
  "example_trainer =
     \<lparr>best_val_loss = PosInf, weights_filename = ''params.pkl'',
      state = \<lparr>params = [True, False], opt_state = ()\<rparr>,
      files = Map.empty, events = []\<rparr>"

section \<open>Properties\<close>

subsection \<open>Causal mask\<close>

lemma causal_mask_2d_shape:
  "length (causal_mask_2d D S) = D"
  "i < D \<Longrightarrow> length (causal_mask_2d D S ! i) = S"
  by (simp_all add: causal_mask_2d_def)

lemma causal_mask_2d_entry:
  "i < D \<Longrightarrow> j < S \<Longrightarrow>
   causal_mask_2d D S ! i ! j = (if int i \<ge> int j - int S + int D then 1 else 0)"
  by (simp add: causal_mask_2d_def)

text \<open>
  Claim C6. For every batch size, destination length \<open>D\<close> and source length \<open>S\<close>, the
  causal mask has shape \<open>(batch, num_heads, D, S)\<close>, its entry at \<open>(b, h, i, j)\<close> is 1
  iff \<open>i \<ge> j - S + D\<close> and 0 otherwise (the same for every \<open>b\<close> and \<open>h\<close>), and for
  \<open>S = D\<close> every entry with \<open>i < j\<close> is 0.
\<close>

theorem causal_mask_spec:
  assumes "b < batch_size" and "h < heads" and "i < D" and "j < S"
  shows "length (causal_mask heads batch_size D S) = batch_size
       \<and> length (causal_mask heads batch_size D S ! b) = heads
       \<and> length (causal_mask heads batch_size D S ! b ! h) = D
       \<and> length (causal_mask heads batch_size D S ! b ! h ! i) = S
       \<and> causal_mask heads batch_size D S ! b ! h ! i ! j =
             (if int i \<ge> int j - int S + int D then 1 else 0)
       \<and> (S = D \<and> i < j \<longrightarrow> causal_mask heads batch_size D S ! b ! h ! i ! j = 0)"
  using assms
  by (simp add: causal_mask_def causal_mask_2d_shape causal_mask_2d_entry)

theorem causal_mask_spec_witness:
  "(0::nat) < 1 \<and> (1::nat) < 2 \<and> (0::nat) < 3 \<and> (2::nat) < 3
   \<and> length (causal_mask 2 1 3 3) = 1
   \<and> length (causal_mask 2 1 3 3 ! 0 ! 1 ! 0) = 3
   \<and> causal_mask 2 1 3 3 ! 0 ! 1 ! 0 ! 2 = 0"
  using causal_mask_spec [of 0 1 1 2 0 3 2 3]
  by simp

subsection \<open>Generation\<close>

lemma generate_loop_total:
  assumes "\<And>t inp. length inp = 1 \<Longrightarrow> \<exists>tok. next_token_step m temp det t inp = Inr [tok]"
    and "length dinp = 1"
  shows "\<exists>out'. generate_loop m temp det n t dinp out = (t + length out', Inr (out @ out'))
           \<and> length out' \<le> n
           \<and> (\<forall>i. Suc i < length out' \<longrightarrow> out' ! i \<noteq> end_token m)
           \<and> (length out' < n \<longrightarrow> out' \<noteq> [] \<and> last out' = end_token m)"
  using assms(2)
proof (induction n arbitrary: t dinp out)
  case 0
  then show ?case by simp
next
  case (Suc n)
  obtain row where dinp: "dinp = [row]"
    using Suc.prems by (cases dinp) auto
  obtain tok where tok: "next_token_step m temp det t dinp = Inr [tok]"
    using assms(1)[OF Suc.prems] by blast
  have cc: "concatenate_axis1 dinp [[tok]] = Inr [row @ [tok]]"
    by (simp add: concatenate_axis1_def dinp)
  show ?case
  proof (cases "tok = end_token m")
    case True
    have "generate_loop m temp det (Suc n) t dinp out = (t + length [tok], Inr (out @ [tok]))"
      using tok cc True by simp
    then show ?thesis using True
      by (intro exI[of _ "[tok]"]) simp
  next
    case False
    from Suc.IH[of "[row @ [tok]]" "Suc t" "out @ [tok]"]
    obtain out' where o: "generate_loop m temp det n (Suc t) [row @ [tok]] (out @ [tok])
          = (Suc t + length out', Inr ((out @ [tok]) @ out'))"
      "length out' \<le> n"
      "\<forall>i. Suc i < length out' \<longrightarrow> out' ! i \<noteq> end_token m"
      "length out' < n \<longrightarrow> out' \<noteq> [] \<and> last out' = end_token m"
      by auto
    have "generate_loop m temp det (Suc n) t dinp out
            = (t + length (tok # out'), Inr (out @ (tok # out')))"
      using tok cc False o(1) by simp
    moreover have "\<forall>i. Suc i < length (tok # out') \<longrightarrow> (tok # out') ! i \<noteq> end_token m"
      using o(3) False by (auto simp: nth_Cons split: nat.splits)
    moreover have "length (tok # out') < Suc n \<longrightarrow> (tok # out') \<noteq> [] \<and> last (tok # out') = end_token m"
      using o(4) by auto
    ultimately show ?thesis using o(2)
      by (intro exI[of _ "tok # out'"]) simp
  qed
qed

lemma generate_loop_constant:
  assumes "\<And>t inp. length inp = 1 \<Longrightarrow> next_token_step m temp det t inp = Inr [c]"
    and "c \<noteq> end_token m"
    and "length dinp = 1"
  shows "generate_loop m temp det n t dinp out = (t + n, Inr (out @ replicate n c))"
  using assms(3)
proof (induction n arbitrary: t dinp out)
  case 0
  then show ?case by simp
next
  case (Suc n)
  obtain row where dinp: "dinp = [row]"
    using Suc.prems by (cases dinp) auto
  have cc: "concatenate_axis1 dinp [[c]] = Inr [row @ [c]]"
    by (simp add: concatenate_axis1_def dinp)
  show ?case
    using assms(1)[OF Suc.prems] assms(2) cc Suc.IH[of "[row @ [c]]" "Suc t" "out @ [c]"]
    by (simp add: replicate_app_Cons_same)
qed

lemma generate_loop_calls_mono: "t \<le> fst (generate_loop m temp det n t dinp out)"
proof (induction n arbitrary: t dinp out)
  case 0
  then show ?case by simp
next
  case (Suc n)
  show ?case
  proof (cases "next_token_step m temp det t dinp")
    case (Inl e)
    then show ?thesis by simp
  next
    case (Inr nt)
    show ?thesis
    proof (cases nt)
      case Nil
      then show ?thesis using Inr by simp
    next
      case (Cons tok rest)
      show ?thesis
      proof (cases "concatenate_axis1 dinp [[tok]]")
        case (Inl e)
        then show ?thesis using Inr Cons by simp
      next
        case r: (Inr d')
        have "Suc t \<le> fst (generate_loop m temp det n (Suc t) d' (out @ [tok]))"
          by (rule Suc.IH)
        then show ?thesis using Inr Cons r by simp
      qed
    qed
  qed
qed

lemma generate_loop_calls_pos:
  assumes "0 < n"
  shows "Suc t \<le> fst (generate_loop m temp det n t dinp out)"
proof -
  obtain n' where n: "n = Suc n'" using assms by (cases n) auto
  have rec: "Suc t \<le> fst (generate_loop m temp det n' (Suc t) d' o')" for d' o'
    by (rule generate_loop_calls_mono)
  show ?thesis
  proof (cases "next_token_step m temp det t dinp")
    case (Inl e)
    then show ?thesis by (simp add: n)
  next
    case (Inr nt)
    show ?thesis
    proof (cases nt)
      case Nil
      then show ?thesis using Inr by (simp add: n)
    next
      case (Cons tok rest)
      show ?thesis
      proof (cases "concatenate_axis1 dinp [[tok]]")
        case (Inl e)
        then show ?thesis using Inr Cons by (simp add: n)
      next
        case r: (Inr d')
        then show ?thesis using Inr Cons rec[of d' "out @ [tok]"] by (simp add: n)
      qed
    qed
  qed
qed

lemma set_column_same:
  assumes "length nt = length out"
  shows "set_column out i nt = Inr (map2 (\<lambda>row v. row[i := v]) out nt)"
  using assms by (simp add: set_column_def)

lemma extend_rows_Nil: "extend_rows seed [] = seed"
  by (simp add: extend_rows_def map_nth)

lemma written_rows_Nil: "written_rows B W [] = replicate B (replicate W 0)"
  by (simp add: written_rows_def map_replicate_const)

lemma extend_rows_snoc:
  assumes "length nt = length seed"
  shows "map2 (@) (extend_rows seed toks) (map (\<lambda>v. [v]) nt) = extend_rows seed (toks @ [nt])"
  using assms by (intro nth_equalityI) (simp_all add: extend_rows_def)

lemma written_rows_snoc:
  assumes "length nt = B" and "length toks < W"
  shows "map2 (\<lambda>row v. row[length toks := v]) (written_rows B W toks) nt
           = written_rows B W (toks @ [nt])"
proof -
  obtain d where d: "W - length toks = Suc d" "W - Suc (length toks) = d"
    using assms(2) by (cases "W - length toks") auto
  have "map2 (\<lambda>row v. row[length toks := v]) (written_rows B W toks) nt ! b
          = written_rows B W (toks @ [nt]) ! b" if "b < B" for b
    using that assms(1) d by (simp add: written_rows_def list_update_append)
  moreover have "length (map2 (\<lambda>row v. row[length toks := v]) (written_rows B W toks) nt) = B"
    "length (written_rows B W (toks @ [nt])) = B"
    using assms(1) by (simp_all add: written_rows_def)
  ultimately show ?thesis
    by (simp add: list_eq_iff_nth_eq)
qed

lemma generate_batch_loop_trace:
  assumes "generate_batch_loop m temp det n i dinp out = (k, Inr (dinp', out'))"
    and "W = i + n"
    and "length toks0 = i"
    and "dinp = extend_rows seed toks0"
    and "out = written_rows (length seed) W toks0"
    and "\<forall>j<i. next_token_step m temp det j (extend_rows seed (take j toks0)) = Inr (toks0 ! j)
               \<and> length (toks0 ! j) = length seed"
    and "\<forall>j<i. \<not> list_all (\<lambda>v. v = end_token m) (toks0 ! j)"
  shows "\<exists>toks. length toks = k
           \<and> (\<forall>j<k. next_token_step m temp det j (extend_rows seed (take j toks)) = Inr (toks ! j)
                     \<and> length (toks ! j) = length seed)
           \<and> (\<forall>j. Suc j < k \<longrightarrow> \<not> list_all (\<lambda>v. v = end_token m) (toks ! j))
           \<and> dinp' = extend_rows seed toks
           \<and> out' = written_rows (length seed) W toks
           \<and> i \<le> k \<and> k \<le> W
           \<and> (k < W \<longrightarrow> i < k \<and> list_all (\<lambda>v. v = end_token m) (toks ! (k - 1)))"
  using assms
proof (induction n arbitrary: i dinp out toks0)
  case 0
  have k: "k = i" "dinp' = dinp" "out' = out" "W = i"
    using "0.prems"(1,2) by simp_all
  show ?case
    using "0.prems"(3-7) unfolding k
    by (intro exI[of _ toks0]) simp
next
  case (Suc n)
  from Suc.prems(1) obtain nt where nt: "next_token_step m temp det i dinp = Inr nt"
    by (auto split: sum.splits)
  from Suc.prems(1) nt obtain out1 where out1: "set_column out i nt = Inr out1"
    by (auto split: sum.splits)
  from Suc.prems(1) nt out1 obtain dinp1 where
    dinp1: "concatenate_axis1 dinp (map (\<lambda>v. [v]) nt) = Inr dinp1"
    by (auto split: sum.splits)
  have len_d: "length dinp = length seed" "length out = length seed"
    using Suc.prems(4,5) by (simp_all add: extend_rows_def written_rows_def)
  from dinp1 have len_nt: "length nt = length seed"
    using len_d by (auto simp: concatenate_axis1_def split: if_splits)
  have iW: "length toks0 < W" using Suc.prems(2,3) by simp
  define toks1 where "toks1 = toks0 @ [nt]"
  have dinp1_eq: "dinp1 = extend_rows seed toks1"
    using dinp1 len_nt len_d extend_rows_snoc[OF len_nt, of toks0]
    by (auto simp: concatenate_axis1_def toks1_def Suc.prems(4) split: if_splits)
  have "set_column out i nt = Inr (map2 (\<lambda>row v. row[i := v]) out nt)"
    using len_nt len_d by (intro set_column_same) simp
  then have out1_eq: "out1 = written_rows (length seed) W toks1"
    using out1 written_rows_snoc[OF len_nt iW] Suc.prems(3,5) by (simp add: toks1_def)
  have len1: "length toks1 = Suc i" using Suc.prems(3) by (simp add: toks1_def)
  have steps1: "\<forall>j<Suc i. next_token_step m temp det j (extend_rows seed (take j toks1))
                    = Inr (toks1 ! j) \<and> length (toks1 ! j) = length seed"
  proof (intro allI impI)
    fix j assume j: "j < Suc i"
    show "next_token_step m temp det j (extend_rows seed (take j toks1)) = Inr (toks1 ! j)
            \<and> length (toks1 ! j) = length seed"
    proof (cases "j < i")
      case True
      then show ?thesis
        using Suc.prems(3,6) by (simp add: toks1_def nth_append)
    next
      case False
      then have "j = i" using j by simp
      then show ?thesis
        using nt len_nt Suc.prems(3,4) by (simp add: toks1_def nth_append)
    qed
  qed
  show ?case
  proof (cases "list_all (\<lambda>v. v = end_token m) nt")
    case True
    with Suc.prems(1) nt out1 dinp1 have res: "k = Suc i" "dinp' = dinp1" "out' = out1"
      by simp_all
    have early: "\<forall>j. Suc j < k \<longrightarrow> \<not> list_all (\<lambda>v. v = end_token m) (toks1 ! j)"
      using Suc.prems(3,7) res(1) by (simp add: toks1_def nth_append)
    have last: "list_all (\<lambda>v. v = end_token m) (toks1 ! (k - 1))"
      using True res(1) Suc.prems(3) by (simp add: toks1_def nth_append)
    show ?thesis
      using res len1 steps1 early last dinp1_eq out1_eq Suc.prems(2)
      by (intro exI[of _ toks1]) simp
  next
    case False
    with Suc.prems(1) nt out1 dinp1 have
      rec: "generate_batch_loop m temp det n (Suc i) dinp1 out1 = (k, Inr (dinp', out'))"
      by simp
    have no_stop: "\<forall>j<Suc i. \<not> list_all (\<lambda>v. v = end_token m) (toks1 ! j)"
      using False Suc.prems(3,7) by (auto simp: toks1_def nth_append less_Suc_eq)
    have W1: "W = Suc i + n" using Suc.prems(2) by simp
    from Suc.IH[OF rec W1 len1 dinp1_eq out1_eq steps1 no_stop]
    obtain toks where t: "length toks = k"
      "\<forall>j<k. next_token_step m temp det j (extend_rows seed (take j toks)) = Inr (toks ! j)
                     \<and> length (toks ! j) = length seed"
      "\<forall>j. Suc j < k \<longrightarrow> \<not> list_all (\<lambda>v. v = end_token m) (toks ! j)"
      "dinp' = extend_rows seed toks"
      "out' = written_rows (length seed) W toks"
      "Suc i \<le> k" "k \<le> W"
      "k < W \<longrightarrow> Suc i < k \<and> list_all (\<lambda>v. v = end_token m) (toks ! (k - 1))"
      by blast
    show ?thesis
      using t by (intro exI[of _ toks]) auto
  qed
qed

text \<open>
  Claim C10. Single-sequence generation called with an input whose batch dimension is
  greater than 1 fails the assertion before the decoder is called once (zero decoder
  calls, \<open>AssertionError\<close>, whatever the decoder would do). With batch dimension 1, or
  with no input, the assertion passes: the call is the decoding loop started from the
  given prefix (or from the start token), and the decoder is called at least once when
  \<open>max_length\<close> is positive.
\<close>

theorem generate_assertion:
  "(1 < length xs \<longrightarrow> generate_run m (Some xs) temperature deterministic = (0, Inl AssertionError))
   \<and> (length ys = 1 \<longrightarrow>
        generate_run m (Some ys) temperature deterministic
          = generate_loop m temperature deterministic (max_length m) 0 ys []
        \<and> (0 < max_length m \<longrightarrow> 1 \<le> fst (generate_run m (Some ys) temperature deterministic)))
   \<and> generate_run m None temperature deterministic
        = generate_loop m temperature deterministic (max_length m) 0 [[start_token m]] []
   \<and> (0 < max_length m \<longrightarrow> 1 \<le> fst (generate_run m None temperature deterministic))"
  using generate_loop_calls_pos[of "max_length m" 0 m temperature deterministic]
  by (simp add: generate_run_def)

theorem generate_assertion_witness:
  "generate_run (hyperparams failing_step) (Some [[123, 456], [145, 656]]) 1 False
     = (0, Inl AssertionError)
   \<and> generate_run (hyperparams failing_step) (Some [[123, 456]]) 1 False = (1, Inl DecoderError)
   \<and> 1 \<le> fst (generate_run (hyperparams failing_step) (Some [[123, 456]]) 1 False)
   \<and> 1 \<le> fst (generate_run (hyperparams failing_step) None 1 False)"
  using generate_assertion[of "[[123, 456], [145, 656]]" "hyperparams failing_step" 1 False
          "[[123, 456]]"]
  by (simp add: hyperparams_def failing_step_def eval_nat_numeral)

text \<open>
  Claim C4, as stated, fails: under the configuration \<open>hyperparams\<close> a decoder that
  never prefers token 50 makes \<open>generate\<close>, seeded with \<open>[[123, 456]]\<close> and
  \<open>deterministic = True\<close>, return 51 tokens. The loop runs \<open>max_length\<close> times whatever
  the length of the prefix.
\<close>

theorem generate_length_49_counterexample:
  "generate (hyperparams (constant_step 7)) (Some [[123, 456]]) 1 True = Inr (replicate 51 7)
   \<and> \<not> length (replicate 51 (7::int)) \<le> 49"
proof -
  have "generate_loop (hyperparams (constant_step 7)) 1 True 51 0 [[123, 456]] []
          = (0 + 51, Inr ([] @ replicate 51 7))"
    by (rule generate_loop_constant) (simp_all add: hyperparams_def constant_step_def)
  then show ?thesis
    by (simp add: generate_def generate_run_def hyperparams_def)
qed

text \<open>
  Claim C4, amended. Under the configuration \<open>hyperparams\<close> (\<open>max_length = 51\<close>,
  \<open>end_token = 50\<close>), with a decoder that yields one token for a batch of one,
  \<open>generate\<close> seeded with \<open>[[123, 456]]\<close> and \<open>deterministic = True\<close> returns a
  sequence of at most 51 token ids (\<open>max_length\<close>; the prefix is not counted), in which
  token 50 can only be the last element, and which ends with token 50 whenever it is
  shorter than 51: the loop stops as soon as token 50 is produced.
\<close>

theorem generate_hyperparams_length:
  assumes "\<And>t inp. length inp = 1 \<Longrightarrow> \<exists>tok. step temperature True t inp = Inr [tok]"
  shows "\<exists>out. generate (hyperparams step) (Some [[123, 456]]) temperature True = Inr out
           \<and> length out \<le> 51
           \<and> (\<forall>i. Suc i < length out \<longrightarrow> out ! i \<noteq> 50)
           \<and> (length out < 51 \<longrightarrow> out \<noteq> [] \<and> last out = 50)"
proof -
  have "\<exists>out'. generate_loop (hyperparams step) temperature True 51 0 [[123, 456]] []
           = (0 + length out', Inr ([] @ out'))
         \<and> length out' \<le> 51
         \<and> (\<forall>i. Suc i < length out' \<longrightarrow> out' ! i \<noteq> end_token (hyperparams step))
         \<and> (length out' < 51 \<longrightarrow> out' \<noteq> [] \<and> last out' = end_token (hyperparams step))"
    by (rule generate_loop_total) (use assms in \<open>simp_all add: hyperparams_def\<close>)
  then show ?thesis
    by (auto simp: generate_def generate_run_def hyperparams_def)
qed

theorem generate_hyperparams_length_witness:
  "generate (hyperparams (length_step 47)) (Some [[123, 456]]) 1 True = Inr [49, 50]
   \<and> (\<exists>out. generate (hyperparams (length_step 47)) (Some [[123, 456]]) 1 True = Inr out
           \<and> length out \<le> 51
           \<and> (\<forall>i. Suc i < length out \<longrightarrow> out ! i \<noteq> 50)
           \<and> (length out < 51 \<longrightarrow> out \<noteq> [] \<and> last out = 50))"
proof -
  have h: "\<And>t inp. length inp = 1 \<Longrightarrow> \<exists>tok. length_step 47 1 True t inp = Inr [tok]"
  proof -
    fix t :: nat and inp :: tokens
    assume "length inp = 1"
    then obtain row where "inp = [row]" by (cases inp) auto
    then show "\<exists>tok. length_step 47 1 True t inp = Inr [tok]"
      by (simp add: length_step_def)
  qed
  have "generate (hyperparams (length_step 47)) (Some [[123, 456]]) 1 True = Inr [49, 50]"
    by (simp add: generate_def generate_run_def hyperparams_def length_step_def
          concatenate_axis1_def eval_nat_numeral)
  then show ?thesis
    using generate_hyperparams_length[of "length_step 47" 1, OF h] by simp
qed

text \<open>
  Claim C3. A run of \<open>generate_batch\<close> that returns after \<open>k\<close> iterations has run
  iterations \<open>0, ..., k - 1\<close> on the whole batch: there are token arrays \<open>toks\<close>, one per
  iteration, each the decoder's \<open>next_token\<close> for the input grown by all earlier
  arrays; every row of \<open>decoder_input\<close> and of the output holds its entry of every
  array (so a row that has emitted the end token is still decoded and written); in no
  iteration before the last were all tokens the end token; and when \<open>k < max_length\<close>,
  all tokens of the last iteration are the end token. The loop stops early only in an
  iteration in which every sequence emits the end token, and never for one sequence
  alone.
\<close>

theorem generate_batch_global_stop:
  assumes "generate_batch_run m x temperature deterministic
             = (k, Inr (decoder_input, output_sequences))"
  shows "\<exists>toks. length toks = k \<and> k \<le> max_length m
           \<and> (\<forall>j<k. next_token_step m temperature deterministic j
                        (extend_rows (seed_of m x) (take j toks)) = Inr (toks ! j)
                     \<and> length (toks ! j) = length (seed_of m x))
           \<and> (\<forall>j. Suc j < k \<longrightarrow> \<not> list_all (\<lambda>v. v = end_token m) (toks ! j))
           \<and> decoder_input = extend_rows (seed_of m x) toks
           \<and> output_sequences = written_rows (length (seed_of m x)) (max_length m) toks
           \<and> length output_sequences = (case x of Some xs \<Rightarrow> length xs | None \<Rightarrow> 1)
           \<and> (\<forall>b < length output_sequences.
                 length (decoder_input ! b) = length (seed_of m x ! b) + k)
           \<and> (k < max_length m \<longrightarrow>
                 1 \<le> k \<and> list_all (\<lambda>v. v = end_token m) (toks ! (k - 1))
                 \<and> (\<forall>b < length output_sequences.
                       output_sequences ! b ! (k - 1) = end_token m))"
proof -
  define seed where "seed = seed_of m x"
  have bs: "(case x of Some xs \<Rightarrow> length xs | None \<Rightarrow> 1) = length seed"
    by (simp add: seed_def seed_of_def split: option.splits)
  have run: "generate_batch_loop m temperature deterministic (max_length m) 0
               (extend_rows seed []) (written_rows (length seed) (max_length m) [])
               = (k, Inr (decoder_input, output_sequences))"
    using assms
    by (simp add: generate_batch_run_def seed_def seed_of_def extend_rows_Nil written_rows_Nil
        split: option.splits)
  from generate_batch_loop_trace[OF run, of "max_length m" "[]" seed]
  obtain toks where t: "length toks = k"
    "\<forall>j<k. next_token_step m temperature deterministic j (extend_rows seed (take j toks))
             = Inr (toks ! j) \<and> length (toks ! j) = length seed"
    "\<forall>j. Suc j < k \<longrightarrow> \<not> list_all (\<lambda>v. v = end_token m) (toks ! j)"
    "decoder_input = extend_rows seed toks"
    "output_sequences = written_rows (length seed) (max_length m) toks"
    "k \<le> max_length m"
    "k < max_length m \<longrightarrow> 0 < k \<and> list_all (\<lambda>v. v = end_token m) (toks ! (k - 1))"
    by auto
  have len_out: "length output_sequences = length seed"
    by (simp add: t(5) written_rows_def)
  have rows: "\<forall>b < length output_sequences.
                 length (decoder_input ! b) = length (seed ! b) + k"
    using len_out by (simp add: t(1,4) extend_rows_def)
  have col: "\<forall>b < length output_sequences. output_sequences ! b ! (k - 1) = end_token m"
    if "k < max_length m"
  proof (intro allI impI)
    fix b assume b: "b < length output_sequences"
    from that t(7) have k: "0 < k" and all: "list_all (\<lambda>v. v = end_token m) (toks ! (k - 1))"
      by simp_all
    have "length (toks ! (k - 1)) = length seed" using t(2) k by simp
    then have "toks ! (k - 1) ! b = end_token m"
      using all b len_out by (simp add: list_all_length)
    moreover have "output_sequences ! b ! (k - 1) = toks ! (k - 1) ! b"
      using b len_out k t(1) by (simp add: t(5) written_rows_def nth_append)
    ultimately show "output_sequences ! b ! (k - 1) = end_token m" by simp
  qed
  have late: "k < max_length m \<longrightarrow>
                 1 \<le> k \<and> list_all (\<lambda>v. v = end_token m) (toks ! (k - 1))
                 \<and> (\<forall>b < length output_sequences.
                       output_sequences ! b ! (k - 1) = end_token m)"
    using t(7) col by (simp add: Suc_le_eq)
  show ?thesis
    unfolding seed_def[symmetric] bs
    using t(1) t(6) t(2) t(3) t(4) t(5) len_out rows late
    by blast
qed

lemma successor_run:
  "generate_batch_run \<lparr>max_length = 5, start_token = 0, end_token = 50,
       next_token_step = successor_step\<rparr> (Some [[49], [5]]) 1 True
     = (3, Inr ([[49, 50, 7, 50], [5, 6, 7, 50]], [[50, 7, 50, 0, 0], [6, 7, 50, 0, 0]]))"
  by (simp add: generate_batch_run_def successor_step_def set_column_def
        concatenate_axis1_def eval_nat_numeral)

theorem generate_batch_global_stop_witness:
  "generate_batch_run \<lparr>max_length = 5, start_token = 0, end_token = 50,
       next_token_step = successor_step\<rparr> (Some [[49], [5]]) 1 True
     = (3, Inr ([[49, 50, 7, 50], [5, 6, 7, 50]], [[50, 7, 50, 0, 0], [6, 7, 50, 0, 0]]))
   \<and> (3::nat) < 5
   \<and> (\<exists>toks. length toks = 3
         \<and> successor_step 1 True 0 [[49], [5]] = Inr (toks ! 0)
         \<and> \<not> list_all (\<lambda>v. v = 50) (toks ! 0)
         \<and> \<not> list_all (\<lambda>v. v = 50) (toks ! 1)
         \<and> list_all (\<lambda>v. v = 50) (toks ! 2)
         \<and> [[49, 50, 7, 50], [5, 6, 7, 50]] = extend_rows [[49], [5]] toks
         \<and> [[50, 7, 50, 0, 0], [6, 7, 50, 0, 0]] = written_rows 2 5 toks)"
proof -
  let ?m = "\<lparr>max_length = 5, start_token = 0, end_token = 50, next_token_step = successor_step\<rparr>"
  from generate_batch_global_stop[OF successor_run]
  obtain toks where t: "length toks = 3"
    "\<forall>j<3. next_token_step ?m 1 True j (extend_rows (seed_of ?m (Some [[49], [5]])) (take j toks))
             = Inr (toks ! j)"
    "\<forall>j. Suc j < 3 \<longrightarrow> \<not> list_all (\<lambda>v. v = end_token ?m) (toks ! j)"
    "[[49, 50, 7, 50], [5, 6, 7, 50]] = extend_rows (seed_of ?m (Some [[49], [5]])) toks"
    "[[50, 7, 50, 0, 0], [6, 7, 50, 0, 0]]
       = written_rows (length (seed_of ?m (Some [[49], [5]]))) (max_length ?m) toks"
    "3 < max_length ?m \<longrightarrow> list_all (\<lambda>v. v = end_token ?m) (toks ! (3 - 1))"
    by blast
  have s0: "successor_step 1 True 0 [[49], [5]] = Inr (toks ! 0)"
    using t(2)[rule_format, of 0] by (simp add: seed_of_def extend_rows_Nil)
  have n0: "\<not> list_all (\<lambda>v. v = 50) (toks ! 0)" using t(3)[rule_format, of 0] by simp
  have n1: "\<not> list_all (\<lambda>v. v = 50) (toks ! 1)" using t(3)[rule_format, of 1] by simp
  have a2: "list_all (\<lambda>v. v = 50) (toks ! 2)" using t(6) by simp
  have e: "[[49, 50, 7, 50], [5, 6, 7, 50]] = extend_rows [[49], [5]] toks"
    using t(4) by (simp add: seed_of_def)
  have w: "[[50, 7, 50, 0, 0], [6, 7, 50, 0, 0]] = written_rows 2 5 toks"
    using t(5) by (simp add: seed_of_def numeral_2_eq_2)
  have lt: "(3::nat) < 5" by simp
  from successor_run lt t(1) s0 n0 n1 a2 e w show ?thesis by blast
qed

subsection \<open>Decoder block\<close>

lemma ex_s1: "sublayer1 example_block example_env False (block_enter example_block [[[0]]] None)
  = Inr \<lparr>var_x = [[[1]]], var_mask = Some [[[[1]]]], var_attended_x = Some [[[1]]],
     var_attention1 = Some [[[[1]]]], var_attention2 = None\<rparr>"
  by (simp add: sublayer1_def block_enter_def example_block_def example_env_def
      GPT4Block_setup_def LayerNorm_call_def LayerNorm_apply_def mean_def variance_def
      constant_attention_def Dropout_call_def add_attended_def broadcast3_def bdim_def bix_def
      shape1_def shape2_def causal_mask_def causal_mask_2d_def)

lemma ex_s2: "sublayer2 example_block example_env False
     \<lparr>var_x = [[[1]]], var_mask = Some [[[[1]]]], var_attended_x = Some [[[1]]],
      var_attention1 = Some [[[[1]]]], var_attention2 = None\<rparr>
   = Inr \<lparr>var_x = [[[10]]], var_mask = Some [[[[1]]]], var_attended_x = Some [[[10]]],
      var_attention1 = Some [[[[1]]]], var_attention2 = Some [[[[1]]]]\<rparr>"
  by (simp add: sublayer2_def example_block_def example_env_def
      GPT4Block_setup_def LayerNorm_call_def LayerNorm_apply_def mean_def variance_def
      constant_attention_def Dropout_call_def add_attended_def broadcast3_def bdim_def bix_def
      shape1_def shape2_def)

text \<open>
  Claim C2, as stated, fails: in the example block the first attention yields 1 and the
  second yields 10; after the second sub-layer \<open>x\<close> is 10 (normalised stream 0 plus the
  second attention's 10), where adding the first attention's output would give 1.
\<close>

theorem second_residual_counterexample:
  "x_after_sublayer2 example_block example_env [[[0]]] None False = Inr [[[10]]]
   \<and> x_after_sublayer2_spec example_block example_env [[[0]]] None False = Inr [[[1]]]"
  by (simp add: x_after_sublayer2_def x_after_sublayer2_spec_def ex_s1)
     (simp add: sublayer2_def example_block_def example_env_def
      GPT4Block_setup_def LayerNorm_call_def LayerNorm_apply_def mean_def variance_def
      constant_attention_def Dropout_call_def add_attended_def broadcast3_def bdim_def bix_def
      shape1_def shape2_def)

text \<open>
  Claim C2, amended. In every call of the decoder block, the residual addition that
  closes the second self-attention sub-layer adds the second attention sub-layer's
  output (to which \<open>attended_x\<close> has been rebound) to the dropped-out stream; the first
  attention's output has no influence on the sub-layer's result.
\<close>

theorem second_residual_adds_second_attention:
  assumes "sublayer2 self env training s = Inr s'"
  shows "\<exists>a w. attention2_call env (attention2 (GPT4Block_setup self))
                 (LayerNorm_call (norm2 (GPT4Block_setup self)) (norm2_scale env)
                    (norm2_bias env) (var_x s)) (var_mask s) = Inr (a, w)
              \<and> var_attended_x s' = Some a
              \<and> broadcast3 (+)
                   (Dropout_call (dropout2 (GPT4Block_setup self)) (dropout2_sample env)
                      (LayerNorm_call (norm2 (GPT4Block_setup self)) (norm2_scale env)
                         (norm2_bias env) (var_x s)) (\<not> training)) a = Inr (var_x s')
              \<and> sublayer2 self env training (s\<lparr>var_attended_x := first\<rparr>) = Inr s'"
  using assms
  by (auto simp: sublayer2_def add_attended_def Let_def split: sum.splits prod.splits)

theorem second_residual_adds_second_attention_witness:
  "sublayer2 example_block example_env False
     \<lparr>var_x = [[[1]]], var_mask = Some [[[[1]]]], var_attended_x = Some [[[1]]],
      var_attention1 = Some [[[[1]]]], var_attention2 = None\<rparr>
   = Inr \<lparr>var_x = [[[10]]], var_mask = Some [[[[1]]]], var_attended_x = Some [[[10]]],
      var_attention1 = Some [[[[1]]]], var_attention2 = Some [[[[1]]]]\<rparr>
   \<and> sublayer2 example_block example_env False
     \<lparr>var_x = [[[1]]], var_mask = Some [[[[1]]]], var_attended_x = Some [[[7]]],
      var_attention1 = Some [[[[1]]]], var_attention2 = None\<rparr>
   = Inr \<lparr>var_x = [[[10]]], var_mask = Some [[[[1]]]], var_attended_x = Some [[[10]]],
      var_attention1 = Some [[[[1]]]], var_attention2 = Some [[[[1]]]]\<rparr>"
  using second_residual_adds_second_attention[OF ex_s2, of "Some [[[7]]]"] ex_s2
  by simp

text \<open>
  Claim C7. For every configuration, each of the three normalisation layers of a
  decoder block has the configured dropout probability as its epsilon, so each
  normalised feature is \<open>(x - mean) / sqrt (variance + dropout)\<close>, times the learned
  scale, plus the learned bias.
\<close>

theorem norm_epsilon_is_dropout:
  assumes "k < length xs"
  shows "epsilon (norm1 (GPT4Block_setup self)) = dropout self
       \<and> epsilon (norm2 (GPT4Block_setup self)) = dropout self
       \<and> epsilon (norm3 (GPT4Block_setup self)) = dropout self
       \<and> LayerNorm_apply (norm1 (GPT4Block_setup self)) scale bias xs ! k
           = (xs ! k - mean xs) / sqrt (variance xs + dropout self) * scale ! k + bias ! k
       \<and> LayerNorm_apply (norm2 (GPT4Block_setup self)) scale bias xs ! k
           = (xs ! k - mean xs) / sqrt (variance xs + dropout self) * scale ! k + bias ! k
       \<and> LayerNorm_apply (norm3 (GPT4Block_setup self)) scale bias xs ! k
           = (xs ! k - mean xs) / sqrt (variance xs + dropout self) * scale ! k + bias ! k"
  using assms by (simp add: GPT4Block_setup_def LayerNorm_apply_def)

theorem norm_epsilon_is_dropout_witness:
  "(0::nat) < length [0, 1::real]
   \<and> LayerNorm_apply (norm1 (GPT4Block_setup
        \<lparr>hidden_dim = 2, num_heads = 1, feedforward_dim = 2, dropout = 3 / 4, num_experts = 1\<rparr>))
        [1, 1] [0, 0] [0, 1] ! 0 = - 1 / 2"
  using norm_epsilon_is_dropout[of 0 "[0, 1]"
     "\<lparr>hidden_dim = 2, num_heads = 1, feedforward_dim = 2, dropout = 3 / 4, num_experts = 1\<rparr>"
     "[1, 1]" "[0, 0]"]
  by (simp add: mean_def variance_def)

subsection \<open>Trainer\<close>

lemma save_params_events:
  "events (save_params env self)
     = events self @ [Write_file (weights_filename self) (pickle_dump env (params (state self)))]"
  "files (save_params env self)
     = (files self)(weights_filename self \<mapsto> pickle_dump env (params (state self)))"
  "best_val_loss (save_params env self) = best_val_loss self"
  "state (save_params env self) = state self"
  "weights_filename (save_params env self) = weights_filename self"
  by (simp_all add: save_params_def Let_def)

lemma writes_append: "writes (xs @ ys) = writes xs + writes ys"
  by (simp add: writes_def)

lemma validate_and_save_writes:
  assumes "validate_and_save env epoch vl self = Inr self'"
  shows "writes (events self') = writes (events self) + 1"
proof -
  from assms obtain v where v: "evaluate env self vl = Inr v"
    by (auto simp: validate_and_save_def split: sum.splits)
  show ?thesis
    using assms v
    by (auto simp: validate_and_save_def Let_def save_params_events writes_append writes_def)
qed

lemma train_epoch_writes:
  assumes "train_epoch env loader (Some vl) epoch self = Inr self'"
  shows "writes (events self') = writes (events self) + 1"
proof -
  from assms obtain st total cnt where
    tb: "train_batches env (state self) (Finite 0) 0 loader = Inr (st, total, cnt)"
    by (auto simp: train_epoch_def split: sum.splits)
  with assms have nz: "cnt \<noteq> 0"
    by (auto simp: train_epoch_def split: if_splits)
  define s1 where "s1 = self\<lparr>state := st,
      events := events self @ [Print_train_loss (epoch + 1) (float_div_count total cnt)]\<rparr>"
  have "validate_and_save env epoch vl s1 = Inr self'"
    using assms tb nz by (simp add: train_epoch_def Let_def s1_def)
  from validate_and_save_writes[OF this] show ?thesis
    by (simp add: s1_def writes_append writes_def)
qed

lemma train_epochs_writes:
  assumes "train_epochs env loader (Some vl) n epoch self = Inr self'"
  shows "writes (events self') = writes (events self) + n"
  using assms
proof (induction n arbitrary: epoch self)
  case 0
  then show ?case by simp
next
  case (Suc n)
  from Suc.prems obtain mid where
    mid: "train_epoch env loader (Some vl) epoch self = Inr mid"
    and rest: "train_epochs env loader (Some vl) n (Suc epoch) mid = Inr self'"
    by (auto split: sum.splits)
  from Suc.IH[OF rest] train_epoch_writes[OF mid] show ?case by simp
qed

text \<open>
  Claim C8. With a validation loader, every validation pass that returns a loss is
  followed by a write of the current parameters to the weights file, whether or not
  the loss is below the recorded best: the comparison only decides the new value of
  \<open>best_val_loss\<close>. Hence a run of \<open>train\<close> over \<open>n\<close> epochs that returns has written
  the checkpoint exactly \<open>n\<close> times.
\<close>

theorem checkpoint_after_every_validation:
  assumes "evaluate env self vl = Inr val_loss"
  shows "(\<exists>self'. validate_and_save env epoch vl self = Inr self'
            \<and> best_val_loss self'
                = (if float_less val_loss (best_val_loss self) then val_loss
                   else best_val_loss self)
            \<and> events self'
                = events self @ [Print_val_loss (epoch + 1) val_loss, Print_new_best,
                    Write_file (weights_filename self) (pickle_dump env (params (state self)))]
            \<and> files self' (weights_filename self)
                = Some (pickle_dump env (params (state self))))
       \<and> (train env self0 loader n (Some vl) = Inr final
            \<longrightarrow> writes (events final) = writes (events self0) + n)"
proof -
  have "train env self0 loader n (Some vl) = Inr final
          \<longrightarrow> writes (events final) = writes (events self0) + n"
    using train_epochs_writes[of env loader vl n 0 self0 final] by (simp add: train_def)
  moreover have "\<exists>self'. validate_and_save env epoch vl self = Inr self'
            \<and> best_val_loss self'
                = (if float_less val_loss (best_val_loss self) then val_loss
                   else best_val_loss self)
            \<and> events self'
                = events self @ [Print_val_loss (epoch + 1) val_loss, Print_new_best,
                    Write_file (weights_filename self) (pickle_dump env (params (state self)))]
            \<and> files self' (weights_filename self)
                = Some (pickle_dump env (params (state self)))"
    using assms by (simp add: validate_and_save_def Let_def save_params_events)
  ultimately show ?thesis by blast
qed

lemma example_train:
  "train example_trainer_env example_trainer [0] 2 (Some [0])
     = Inr \<lparr>best_val_loss = Finite 2, weights_filename = ''params.pkl'',
            state = \<lparr>params = [True, False], opt_state = ()\<rparr>,
            files = [''params.pkl'' \<mapsto> ''10''],
            events = [Print_train_loss 1 (Finite 1), Print_val_loss 1 (Finite 2),
                      Print_new_best, Write_file ''params.pkl'' ''01'',
                      Print_train_loss 2 (Finite 1), Print_val_loss 2 (Finite 2),
                      Print_new_best, Write_file ''params.pkl'' ''10'']\<rparr>"
  by (simp add: train_def train_epoch_def validate_and_save_def evaluate_def save_params_def
      example_trainer_env_def example_trainer_def eval_nat_numeral Let_def)

theorem checkpoint_after_every_validation_witness:
  "evaluate example_trainer_env (example_trainer\<lparr>best_val_loss := Finite 1\<rparr>) [0] = Inr (Finite 2)
   \<and> (\<exists>self'. validate_and_save example_trainer_env 1 [0]
                 (example_trainer\<lparr>best_val_loss := Finite 1\<rparr>) = Inr self'
         \<and> best_val_loss self' = Finite 1
         \<and> events self' = [Print_val_loss 2 (Finite 2), Print_new_best,
                            Write_file ''params.pkl'' ''10''])
   \<and> (\<exists>final. train example_trainer_env example_trainer [0] 2 (Some [0]) = Inr final
         \<and> writes (events final) = 2)"
proof -
  have ev: "evaluate example_trainer_env (example_trainer\<lparr>best_val_loss := Finite 1\<rparr>) [0]
              = Inr (Finite 2)"
    by (simp add: evaluate_def example_trainer_env_def example_trainer_def)
  obtain final where fin: "train example_trainer_env example_trainer [0] 2 (Some [0]) = Inr final"
    using example_train by blast
  note w = checkpoint_after_every_validation[OF ev,
      where epoch = 1 and ?self0.0 = example_trainer and loader = "[0]" and n = 2
        and final = final]
  from w fin have B: "writes (events final) = 2"
    by (simp add: example_trainer_def writes_def)
  from w obtain self' where A:
    "validate_and_save example_trainer_env 1 [0] (example_trainer\<lparr>best_val_loss := Finite 1\<rparr>)
       = Inr self'"
    "best_val_loss self'
       = (if float_less (Finite 2) (best_val_loss (example_trainer\<lparr>best_val_loss := Finite 1\<rparr>))
          then Finite 2 else best_val_loss (example_trainer\<lparr>best_val_loss := Finite 1\<rparr>))"
    "events self'
       = events (example_trainer\<lparr>best_val_loss := Finite 1\<rparr>) @
         [Print_val_loss (1 + 1) (Finite 2), Print_new_best,
          Write_file (weights_filename (example_trainer\<lparr>best_val_loss := Finite 1\<rparr>))
            (pickle_dump example_trainer_env
              (params (state (example_trainer\<lparr>best_val_loss := Finite 1\<rparr>))))]"
    by blast
  have A2: "best_val_loss self' = Finite 1" using A(2) by simp
  have A3: "events self' = [Print_val_loss 2 (Finite 2), Print_new_best,
                            Write_file ''params.pkl'' ''10'']"
    using A(3) by (simp add: example_trainer_def example_trainer_env_def)
  from ev A(1) A2 A3 fin B show ?thesis by blast
qed

text \<open>
  Claim C9. Provided \<open>pickle\<close> reads back what it wrote, loading with \<open>load_params\<close> the
  file that \<open>save_params\<close> wrote yields the parameter tree that was saved, so any
  forward pass gives the same output on the reloaded parameters as on the original
  ones.
\<close>

theorem save_load_round_trip:
  assumes "\<And>p. pickle_load env (pickle_dump env p) = Inr p"
  shows "load_params env (files (save_params env self)) (weights_filename self)
           = Inr (params (state self))
       \<and> (\<forall>p'. load_params env (files (save_params env self)) (weights_filename self) = Inr p'
              \<longrightarrow> apply_fn p' inputs = apply_fn (params (state self)) inputs)"
  using assms by (simp add: load_params_def save_params_events)

theorem save_load_round_trip_witness:
  "(\<forall>p. pickle_load example_trainer_env (pickle_dump example_trainer_env p) = Inr p)
   \<and> load_params example_trainer_env (files (save_params example_trainer_env example_trainer))
        ''params.pkl'' = Inr [True, False]"
proof -
  have h: "\<And>p. pickle_load example_trainer_env (pickle_dump example_trainer_env p) = Inr p"
    by (simp add: example_trainer_env_def comp_def map_idI)
  from save_load_round_trip[of example_trainer_env example_trainer "\<lambda>p (u::unit). p" "()",
         OF h] h
  show ?thesis by (simp add: example_trainer_def)
qed

subsection \<open>Attention\<close>

lemma upt4: "[0..<4] = [0, 1, 2, 3]" by (simp add: upt_rec)

lemma split_heads_example:
  "split_heads 4 [[[1, 2, 3, 4]]] [[[1, 1, 1, 1]]] [[[0, 0, 0, 0]]]
     = Inr \<lparr>input_length = 1, context_length = 1, head_dim = 1, dim_key = 4,
            query_heads = ((1, 4, 1, 1), [[[[1]], [[2]], [[3]], [[4]]]]),
            key_heads = ((1, 4, 1, 1), [[[[1]], [[1]], [[1]], [[1]]]]),
            value_heads = ((1, 4, 1, 1), [[[[0]], [[0]], [[0]], [[0]]]])\<rparr>"
  by (simp add: split_heads_def shape1_def shape2_def reshape4_def flatten3_def Let_def upt4)

lemma scores_example: "attention_scores
         \<lparr>input_length = 1, context_length = 1, head_dim = 1, dim_key = 4,
          query_heads = ((1, 4, 1, 1), [[[[1]], [[2]], [[3]], [[4]]]]),
          key_heads = ((1, 4, 1, 1), [[[[1]], [[1]], [[1]], [[1]]]]),
          value_heads = ((1, 4, 1, 1), [[[[0]], [[0]], [[0]], [[0]]]])\<rparr>
       = Inr ((1, 4, 1, 1), [[[[1 / 2]], [[1]], [[3 / 2]], [[2]]]])"
  by (simp add: attention_scores_def transpose_last2_def matmul4_def bdim_def bix_def upt4)

lemma scores_spec_example: "attention_scores_spec
         \<lparr>input_length = 1, context_length = 1, head_dim = 1, dim_key = 4,
          query_heads = ((1, 4, 1, 1), [[[[1]], [[2]], [[3]], [[4]]]]),
          key_heads = ((1, 4, 1, 1), [[[[1]], [[1]], [[1]], [[1]]]]),
          value_heads = ((1, 4, 1, 1), [[[[0]], [[0]], [[0]], [[0]]]])\<rparr>
       = Inr ((1, 4, 1, 1), [[[[1]], [[2]], [[3]], [[4]]]])"
  by (simp add: attention_scores_spec_def transpose_last2_def matmul4_def bdim_def bix_def upt4)

text \<open>
  Claim C1 at a concrete input: with four heads on queries and keys of width 4 the
  per-head dimension is 1, and the products 1, 2, 3, 4 are divided by \<open>sqrt 4 = 2\<close>
  (the width of the key before it is split into heads), where the division by the
  square root of the per-head dimension would leave them unchanged.
\<close>

theorem scores_scaled_by_full_width:
  "raw_scores 4 [[[1, 2, 3, 4]]] [[[1, 1, 1, 1]]] [[[0, 0, 0, 0]]]
     = Inr ((1, 4, 1, 1), [[[[1 / 2]], [[1]], [[3 / 2]], [[2]]]])
   \<and> raw_scores_spec 4 [[[1, 2, 3, 4]]] [[[1, 1, 1, 1]]] [[[0, 0, 0, 0]]]
     = Inr ((1, 4, 1, 1), [[[[1]], [[2]], [[3]], [[4]]]])"
  by (simp only: raw_scores_def raw_scores_spec_def split_heads_example scores_example
      scores_spec_example sum.case simp_thms)

lemma softmax_nth:
  assumes "j < n"
  shows "softmax (map f [0..<n]) ! j = exp (f j) / (\<Sum>c\<leftarrow>[0..<n]. exp (f c))"
  using assms by (simp add: softmax_def comp_def)

lemma softmax_pos:
  assumes "j < length xs"
  shows "0 < softmax xs ! j"
proof -
  have "exp (xs ! j) \<le> (\<Sum>u\<leftarrow>xs. exp u)"
    using assms by (intro member_le_sum_list) auto
  then have "0 < (\<Sum>u\<leftarrow>xs. exp u)"
    using exp_gt_zero[of "xs ! j"] by linarith
  then show ?thesis using assms by (simp add: softmax_def)
qed

lemma broadcast4_entry:
  assumes "bdim a0 b0 = Some n0" "bdim a1 b1 = Some n1" "bdim a2 b2 = Some n2"
    "bdim a3 b3 = Some n3"
  shows "\<exists>r. broadcast4 f (a0, a1, a2, a3) a (b0, b1, b2, b3) b = Inr ((n0, n1, n2, n3), r)
    \<and> length r = n0
    \<and> (\<forall>i0 i1 i2. i0 < n0 \<longrightarrow> i1 < n1 \<longrightarrow> i2 < n2 \<longrightarrow>
         r ! i0 ! i1 ! i2 = map (\<lambda>i3. f (a ! bix a0 i0 ! bix a1 i1 ! bix a2 i2 ! bix a3 i3)
                      (b ! bix b0 i0 ! bix b1 i1 ! bix b2 i2 ! bix b3 i3)) [0..<n3])"
  using assms by (simp add: broadcast4_def)

text \<open>
  Claim C5. For every input and every mask that broadcasts against the raw scores, the
  attention weight at \<open>(i0, i1, i2, i3)\<close> is the softmax over the key axis of the
  products \<open>score * mask\<close>: the exponential of the masked score at \<open>i3\<close> divided by the sum
  of the exponentials of the masked scores of the row. A masked entry (mask 0) has
  masked score 0, so its weight is \<open>1\<close> over that sum, and every weight is positive.
\<close>

theorem mask_multiplies_scores_before_softmax:
  assumes "attention_scores loc = Inr ((a0, a1, a2, a3), s)"
    and "bdim a0 (length m) = Some n0" and "bdim a1 (shape1 m) = Some n1"
    and "bdim a2 (shape2 m) = Some n2" and "bdim a3 (shape3 m) = Some n3"
    and "i0 < n0" and "i1 < n1" and "i2 < n2" and "i3 < n3"
  shows "\<exists>w. attention_weights loc (Some m) = Inr ((n0, n1, n2, n3), w)
           \<and> w ! i0 ! i1 ! i2 ! i3
               = exp (s ! bix a0 i0 ! bix a1 i1 ! bix a2 i2 ! bix a3 i3
                        * real_of_int (m ! bix (length m) i0 ! bix (shape1 m) i1
                                         ! bix (shape2 m) i2 ! bix (shape3 m) i3))
                 / (\<Sum>c\<leftarrow>[0..<n3].
                      exp (s ! bix a0 i0 ! bix a1 i1 ! bix a2 i2 ! bix a3 c
                             * real_of_int (m ! bix (length m) i0 ! bix (shape1 m) i1
                                              ! bix (shape2 m) i2 ! bix (shape3 m) c)))
           \<and> 0 < w ! i0 ! i1 ! i2 ! i3
           \<and> (m ! bix (length m) i0 ! bix (shape1 m) i1 ! bix (shape2 m) i2 ! bix (shape3 m) i3 = 0
                \<longrightarrow> w ! i0 ! i1 ! i2 ! i3
                      = 1 / (\<Sum>c\<leftarrow>[0..<n3].
                          exp (s ! bix a0 i0 ! bix a1 i1 ! bix a2 i2 ! bix a3 c
                                 * real_of_int (m ! bix (length m) i0 ! bix (shape1 m) i1
                                                  ! bix (shape2 m) i2 ! bix (shape3 m) c))))"
proof -
  define g where "g = (\<lambda>c. s ! bix a0 i0 ! bix a1 i1 ! bix a2 i2 ! bix a3 c
                             * real_of_int (m ! bix (length m) i0 ! bix (shape1 m) i1
                                              ! bix (shape2 m) i2 ! bix (shape3 m) c))"
  from broadcast4_entry[OF assms(2-5), of "\<lambda>v z. v * real_of_int z" s m]
  obtain r where r: "broadcast4 (\<lambda>v z. v * real_of_int z) (a0, a1, a2, a3) s
                       (length m, shape1 m, shape2 m, shape3 m) m = Inr ((n0, n1, n2, n3), r)"
    and len: "length r = n0"
    and row: "r ! i0 ! i1 ! i2 = map g [0..<n3]"
    using assms(6-8) unfolding g_def by blast
  have lens: "i1 < length (r ! i0)" "i2 < length (r ! i0 ! i1)"
    using r assms(6-8) by (auto simp: broadcast4_def assms(2-5))
  have w: "attention_weights loc (Some m) = Inr ((n0, n1, n2, n3), softmax4 r)"
    using assms(1) r by (simp add: attention_weights_def apply_mask_def shape_of4_def)
  have wrow: "softmax4 r ! i0 ! i1 ! i2 = softmax (map g [0..<n3])"
    using len lens assms(6) row by (simp add: softmax4_def)
  have e: "softmax4 r ! i0 ! i1 ! i2 ! i3 = exp (g i3) / (\<Sum>c\<leftarrow>[0..<n3]. exp (g c))"
    unfolding wrow using assms(9) by (rule softmax_nth)
  have p: "0 < softmax4 r ! i0 ! i1 ! i2 ! i3"
    unfolding wrow using assms(9) by (intro softmax_pos) simp
  have z: "m ! bix (length m) i0 ! bix (shape1 m) i1 ! bix (shape2 m) i2 ! bix (shape3 m) i3 = 0
            \<longrightarrow> softmax4 r ! i0 ! i1 ! i2 ! i3 = 1 / (\<Sum>c\<leftarrow>[0..<n3]. exp (g c))"
    unfolding e by (simp add: g_def)
  show ?thesis
    using w e p z unfolding g_def by blast
qed

lemma attention_function_weights:
  assumes "attention_function heads query key val mask0 = Inr (out, w)"
  shows "\<exists>loc sh. split_heads heads query key val = Inr loc
           \<and> attention_weights loc mask0 = Inr (sh, w)"
  using assms
  by (auto simp: attention_function_def split: sum.splits prod.splits)

lemma upt2: "[0..<2] = [0, 1]" by (simp add: upt_rec)

lemma split_heads_ones:
  "split_heads 1 [[[1], [1]]] [[[1], [1]]] [[[1], [1]]]
     = Inr \<lparr>input_length = 2, context_length = 2, head_dim = 1, dim_key = 1,
            query_heads = ((1, 1, 2, 1), [[[[1], [1]]]]),
            key_heads = ((1, 1, 2, 1), [[[[1], [1]]]]),
            value_heads = ((1, 1, 2, 1), [[[[1], [1]]]])\<rparr>"
  by (simp add: split_heads_def shape1_def shape2_def reshape4_def flatten3_def Let_def upt2)

lemma scores_ones:
  "attention_scores \<lparr>input_length = 2, context_length = 2, head_dim = 1, dim_key = 1,
            query_heads = ((1, 1, 2, 1), [[[[1], [1]]]]),
            key_heads = ((1, 1, 2, 1), [[[[1], [1]]]]),
            value_heads = ((1, 1, 2, 1), [[[[1], [1]]]])\<rparr>
     = Inr ((1, 1, 2, 2), [[[[1, 1], [1, 1]]]])"
  by (simp add: attention_scores_def transpose_last2_def matmul4_def bdim_def bix_def upt2)

lemma causal_mask_2: "causal_mask 1 1 2 2 = [[[[1, 0], [1, 1]]]]"
  by (simp add: causal_mask_def causal_mask_2d_def upt2)

theorem mask_multiplies_scores_before_softmax_witness:
  "attention_scores \<lparr>input_length = 2, context_length = 2, head_dim = 1, dim_key = 1,
            query_heads = ((1, 1, 2, 1), [[[[1], [1]]]]),
            key_heads = ((1, 1, 2, 1), [[[[1], [1]]]]),
            value_heads = ((1, 1, 2, 1), [[[[1], [1]]]])\<rparr>
     = Inr ((1, 1, 2, 2), [[[[1, 1], [1, 1]]]])
   \<and> (\<exists>w. attention_weights \<lparr>input_length = 2, context_length = 2, head_dim = 1, dim_key = 1,
            query_heads = ((1, 1, 2, 1), [[[[1], [1]]]]),
            key_heads = ((1, 1, 2, 1), [[[[1], [1]]]]),
            value_heads = ((1, 1, 2, 1), [[[[1], [1]]]])\<rparr> (Some (causal_mask 1 1 2 2))
          = Inr ((1, 1, 2, 2), w)
        \<and> w ! 0 ! 0 ! 0 ! 1 = 1 / (exp 1 + 1)
        \<and> 0 < w ! 0 ! 0 ! 0 ! 1)"
proof -
  let ?m = "[[[[1, 0], [1, 1::int]]]]"
  have b: "bdim 1 (length ?m) = Some 1" "bdim 1 (shape1 ?m) = Some 1"
    "bdim 2 (shape2 ?m) = Some 2" "bdim 2 (shape3 ?m) = Some 2"
    by (simp_all add: bdim_def shape1_def shape2_def shape3_def)
  have i: "(0::nat) < 1" "(0::nat) < 1" "(0::nat) < 2" "(1::nat) < 2" by simp_all
  have "\<exists>w. attention_weights \<lparr>input_length = 2, context_length = 2, head_dim = 1, dim_key = 1,
            query_heads = ((1, 1, 2, 1), [[[[1], [1]]]]),
            key_heads = ((1, 1, 2, 1), [[[[1], [1]]]]),
            value_heads = ((1, 1, 2, 1), [[[[1], [1]]]])\<rparr> (Some ?m)
          = Inr ((1, 1, 2, 2), w)
        \<and> w ! 0 ! 0 ! 0 ! 1 = 1 / (exp 1 + 1)
        \<and> 0 < w ! 0 ! 0 ! 0 ! 1"
    using mask_multiplies_scores_before_softmax[OF scores_ones b i]
    by (auto simp: bix_def shape1_def shape2_def shape3_def upt2)
  with scores_ones show ?thesis unfolding causal_mask_2 by (rule conjI)
qed

end
